theory Spec2Isabelle
  imports Complex_Main "HOL-Library.Sublist"
begin

section \<open>JavaScript values used by the tracker\<close>

text \<open>
  Strings are byte lists (UTF-8). The separator \<open>#\<close>, the braces of the URL templates
  and the digits of \<open>404\<close> are ASCII, and an ASCII byte never occurs inside a multi-byte
  UTF-8 sequence, so splitting, searching and replacing on bytes agree with JavaScript's
  UTF-16 code units for every well-formed string. A value that may be \<open>undefined\<close> or
  \<open>null\<close> is an \<open>option\<close>, with \<open>None\<close> for the missing value.
\<close>

text \<open>\<open>String.prototype.split(sep)\<close> for a one-character separator.\<close>

fun split :: "char \<Rightarrow> string \<Rightarrow> string list" where
  "split sep [] = [[]]"
| "split sep (c # cs) =
     (if c = sep then [] # split sep cs
      else (case split sep cs of [] \<Rightarrow> [[c]] | w # ws \<Rightarrow> (c # w) # ws))"

text \<open>Array destructuring \<open>const [a, b] = xs\<close>: a missing position is \<open>undefined\<close>.\<close>

fun nth_opt :: "'a list \<Rightarrow> nat \<Rightarrow> 'a option" where
  "nth_opt [] n = None"
| "nth_opt (x # xs) 0 = Some x"
| "nth_opt (x # xs) (Suc n) = nth_opt xs n"

text \<open>\<open>String.prototype.includes(sub)\<close>.\<close>

fun str_includes :: "string \<Rightarrow> string \<Rightarrow> bool" where
  "str_includes [] sub = (sub = [])"
| "str_includes (c # cs) sub = (prefix sub (c # cs) \<or> str_includes cs sub)"

text \<open>
  The replacement text of \<open>String.prototype.replace\<close> for a string pattern
  (\<open>GetSubstitution\<close> with no capture groups): in the replacement string \<open>$$\<close> stands
  for \<open>$\<close>, \<open>$&\<close> for the matched text, \<open>$`\<close> for the text before the match and
  \<open>$'\<close> for the text after it; any other \<open>$\<close> is kept as it is.
\<close>

fun substitution :: "string \<Rightarrow> string \<Rightarrow> string \<Rightarrow> string \<Rightarrow> string" where
  "substitution matched pre post [] = []"
| "substitution matched pre post [c] = [c]"
| "substitution matched pre post (c # d # r) =
     (if c = CHR ''$'' \<and> d = CHR ''$'' then CHR ''$'' # substitution matched pre post r
      else if c = CHR ''$'' \<and> d = CHR ''&'' then matched @ substitution matched pre post r
      else if c = CHR ''$'' \<and> d = CHR ''`'' then pre @ substitution matched pre post r
      else if c = CHR ''$'' \<and> d = CHR 0x27 then post @ substitution matched pre post r
      else c # substitution matched pre post (d # r))"

text \<open>
  \<open>String.prototype.replace(pat, rep)\<close> with a string pattern: the first occurrence only.
  \<open>pre\<close> is the text already passed over.
\<close>

fun replace_from :: "string \<Rightarrow> string \<Rightarrow> string \<Rightarrow> string \<Rightarrow> string" where
  "replace_from pre pat rep [] =
     (if pat = [] then pre @ substitution pat pre [] rep else pre)"
| "replace_from pre pat rep (c # cs) =
     (if prefix pat (c # cs)
      then pre @ substitution pat pre (drop (length pat) (c # cs)) rep @
           drop (length pat) (c # cs)
      else replace_from (pre @ [c]) pat rep cs)"

definition replace :: "string \<Rightarrow> string \<Rightarrow> string \<Rightarrow> string" where
  "replace pat rep s = replace_from [] pat rep s"

text \<open>Truthiness of a string that may be \<open>null\<close> or \<open>undefined\<close>.\<close>

definition truthy :: "string option \<Rightarrow> bool" where
  "truthy v = (case v of None \<Rightarrow> False | Some s \<Rightarrow> s \<noteq> [])"

text \<open>\<open>String(v)\<close> of such a value, as template literals and \<open>encodeURIComponent\<close> apply it.\<close>

definition to_string :: "string option \<Rightarrow> string" where
  "to_string v = (case v of None \<Rightarrow> ''undefined'' | Some s \<Rightarrow> s)"

definition digit_char :: "nat \<Rightarrow> char" where
  "digit_char d = ''0123456789ABCDEF'' ! (d mod 16)"

text \<open>The decimal digits of a number, as \<open>`${status}`\<close> prints them.\<close>

fun show_nat :: "nat \<Rightarrow> string" where
  "show_nat n =
     (if n < 10 then [digit_char n] else show_nat (n div 10) @ [digit_char (n mod 10)])"

declare show_nat.simps [simp del]

definition unreserved :: "char \<Rightarrow> bool" where
  "unreserved c =
     (let n = (of_char c :: nat)
      in (65 \<le> n \<and> n \<le> 90) \<or> (97 \<le> n \<and> n \<le> 122) \<or> (48 \<le> n \<and> n \<le> 57) \<or>
         c \<in> set ''-_.!~*'()'')"

text \<open>\<open>encodeURIComponent\<close> on the UTF-8 bytes of a well-formed string.\<close>

definition encodeURIComponent :: "string \<Rightarrow> string" where
  "encodeURIComponent s =
     concat (map (\<lambda>c. if unreserved c then [c]
                       else [CHR ''%'', digit_char (of_char c div 16), digit_char (of_char c mod 16)]) s)"

text \<open>A thrown \<open>Error\<close> with its \<open>message\<close>.\<close>

datatype error = Error (message: string)

section \<open>PlayerUtils and RandomUtils\<close>

record riot_id =
  gameName :: "string option"
  tagLine :: "string option"

text \<open>
  \<open>parseRiotId\<close>: \<open>const [gameName, tagLine] = riotId.split('#')\<close>. It has no failing
  branch.
\<close>

definition parseRiotId :: "string \<Rightarrow> riot_id" where
  "parseRiotId riotId =
     (let parts = split CHR ''#'' riotId
      in \<lparr>gameName = nth_opt parts 0, tagLine = nth_opt parts 1\<rparr>)"

text \<open>
  \<open>validateRiotId\<close>: the test of the pattern \<open>/^[^#]+#[^#]+$/\<close>, read off the pattern:
  a non-empty run of characters other than \<open>#\<close>, one \<open>#\<close>, and a non-empty run of
  characters other than \<open>#\<close> up to the end.
\<close>

definition validateRiotId :: "string \<Rightarrow> bool" where
  "validateRiotId riotId =
     (let name = takeWhile (\<lambda>c. c \<noteq> CHR ''#'') riotId;
          rest = dropWhile (\<lambda>c. c \<noteq> CHR ''#'') riotId
      in name \<noteq> [] \<and>
         (case rest of [] \<Rightarrow> False
          | _ # tag \<Rightarrow> tag \<noteq> [] \<and> list_all (\<lambda>c. c \<noteq> CHR ''#'') tag))"

text \<open>
  \<open>Math.random()\<close> is a number \<open>r\<close> with \<open>0 \<le> r < 1\<close>, here a rational (every double is
  one); the product in \<open>randomInt\<close> is exact. In doubles the product of such an \<open>r\<close> and a
  whole number \<open>n\<close> rounds to a double below \<open>n\<close>, so its floor is below \<open>n\<close> there too.
\<close>

definition randomInt :: "rat \<Rightarrow> int \<Rightarrow> int \<Rightarrow> int" where
  "randomInt r lo hi = \<lfloor>r * of_int (hi - lo + 1)\<rfloor> + lo"

definition randomChoice :: "rat \<Rightarrow> 'a list \<Rightarrow> 'a option" where
  "randomChoice r array =
     (let i = \<lfloor>r * of_nat (length array)\<rfloor>
      in if 0 \<le> i \<and> i < int (length array) then Some (array ! nat i) else None)"

section \<open>ApiConfig\<close>

record rate_limit =
  perSecond :: nat
  perMinute :: nat

definition personal :: rate_limit where
  "personal = \<lparr>perSecond = 20, perMinute = 100\<rparr>"

definition production :: rate_limit where
  "production = \<lparr>perSecond = 500, perMinute = 30000\<rparr>"

definition baseUrl_americas :: string where
  "baseUrl_americas = ''https://americas.api.riotgames.com''"

definition endpoint_account :: string where
  "endpoint_account = ''/riot/account/v1/accounts/by-riot-id/{gameName}/{tagLine}''"

definition endpoint_summoner :: string where
  "endpoint_summoner = ''/lol/summoner/v4/summoners/by-puuid/{puuid}''"

definition endpoint_league :: string where
  "endpoint_league = ''/lol/league/v4/entries/by-summoner/{summonerId}''"

definition endpoint_spectator :: string where
  "endpoint_spectator = ''/lol/spectator/v4/active-games/by-summoner/{summonerId}''"

section \<open>Transport: executeRequest and handleApiError\<close>

text \<open>
  What the client reads of a \<open>fetch\<close> response: the status, and the body through the two
  readers the code has. \<open>errorData\<close> is what \<open>handleApiError\<close> gets from
  \<open>(await response.json()).message\<close>: \<open>None\<close> when that expression throws (the body is
  no JSON, or is \<open>null\<close>), \<open>Some None\<close> when the member is absent, \<open>Some (Some m)\<close> when
  it is the string \<open>m\<close>. \<open>json\<close> is what \<open>executeRequest\<close> gets from
  \<open>await response.json()\<close> on a success: the decoded body, or the error it throws.
\<close>

record 'a response =
  status :: nat
  errorData :: "string option option"
  json :: "error + 'a"

text \<open>\<open>response.ok\<close>: the status is in the range 200 to 299.\<close>

definition ok :: "'a response \<Rightarrow> bool" where
  "ok response = (200 \<le> status response \<and> status response \<le> 299)"

definition handleApiError :: "'a response \<Rightarrow> error" where
  "handleApiError response =
     (let st = status response;
          message0 = ''API Error '' @ show_nat st;
          message1 = (case errorData response of
                        None \<Rightarrow> message0
                      | Some m \<Rightarrow> if truthy m then to_string m else message0);
          message2 =
            (if st = 400 then ''Bad Request - Invalid parameters''
             else if st = 401 then ''Unauthorized - Invalid API key''
             else if st = 403 then ''Forbidden - API key expired or invalid''
             else if st = 404 then ''Not Found - Player not found''
             else if st = 429 then ''Rate Limited - Too many requests''
             else if st = 500 then ''Internal Server Error - Riot API issue''
             else if st = 503 then ''Service Unavailable - Riot API maintenance''
             else message1)
      in Error message2)"

text \<open>
  \<open>executeRequest\<close>, given what \<open>await fetch(url, ...)\<close> yields for this request: a
  rejection (\<open>Inl\<close>) or a response.
\<close>

definition executeRequest :: "string option \<Rightarrow> error + 'a response \<Rightarrow> error + 'a" where
  "executeRequest key fetched =
     (if \<not> truthy key then Inl (Error ''API key not set'')
      else (case fetched of
              Inl e \<Rightarrow> Inl e
            | Inr response \<Rightarrow>
                if \<not> ok response then Inl (handleApiError response) else json response))"

section \<open>The request queue of RiotApiClient\<close>

text \<open>
  A queued request: the URL, and \<open>caller\<close> standing for the \<open>resolve\<close>/\<open>reject\<close> pair of
  the promise \<open>makeRequest\<close> returned. No caller in the repository passes \<open>options\<close>.
\<close>

record pending =
  url :: string
  caller :: nat

record RiotApiClient =
  apiKey :: "string option"
  requestQueue :: "pending list"
  isProcessing :: bool
  lastRequestTime :: int
  requestsThisSecond :: nat
  requestsThisMinute :: nat
  minuteResetTime :: int

text \<open>
  The constructor, given its argument, the value \<open>Storage.load('riot_api_key')\<close> yields
  and \<open>Date.now()\<close>.
\<close>

definition new_RiotApiClient :: "string option \<Rightarrow> string option \<Rightarrow> int \<Rightarrow> RiotApiClient" where
  "new_RiotApiClient key stored now =
     \<lparr>apiKey = (if truthy key then key else stored),
      requestQueue = [],
      isProcessing = False,
      lastRequestTime = 0,
      requestsThisSecond = 0,
      requestsThisMinute = 0,
      minuteResetTime = now + 60000\<rparr>"

definition hasApiKey :: "'z RiotApiClient_scheme \<Rightarrow> bool" where
  "hasApiKey c = truthy (apiKey c)"

text \<open>
  The client together with what an observer records: the wall clock (milliseconds, what
  \<open>Date.now()\<close> reads), each call of \<open>executeRequest\<close> with the time it was made, and
  each call of a request's \<open>resolve\<close> (\<open>Inr\<close>) or \<open>reject\<close> (\<open>Inl\<close>).
\<close>

record 'a world = RiotApiClient +
  clock :: int
  dispatched :: "(int \<times> pending) list"
  settled :: "(nat \<times> (error + 'a)) list"

definition start :: "string option \<Rightarrow> string option \<Rightarrow> int \<Rightarrow> 'a world" where
  "start key stored now =
     RiotApiClient.extend (new_RiotApiClient key stored now)
       (world.fields now [] [])"

text \<open>
  \<open>await this.sleep(ms)\<close>: the timer fires no earlier than \<open>ms\<close> milliseconds from now (a
  negative delay counts as zero), and \<open>late\<close> milliseconds after that.
\<close>

definition sleep :: "int \<Rightarrow> nat \<Rightarrow> 'a world \<Rightarrow> 'a world" where
  "sleep ms late w = w\<lparr>clock := clock w + max 0 ms + int late\<rparr>"

text \<open>
  What the environment decides during one turn of the loop: what \<open>fetch\<close> yields, how
  long \<open>executeRequest\<close> takes, and how late each of the three timers fires.
\<close>

record 'a env =
  fetched :: "error + 'a response"
  latency :: nat
  late_second :: nat
  late_minute :: nat
  late_delay :: nat

text \<open>
  The body of the \<open>while\<close> loop of \<open>processQueue\<close>. \<open>now\<close> is read once, before the
  sleeps, as in the source.
\<close>

definition loop_body :: "'a env \<Rightarrow> 'a world \<Rightarrow> 'a world" where
  "loop_body e w0 =
     (let now = clock w0;
          w1 = (if now > minuteResetTime w0
                then w0\<lparr>requestsThisMinute := 0, minuteResetTime := now + 60000\<rparr>
                else w0);
          w2 = (if now - lastRequestTime w1 < 1000
                then (if requestsThisSecond w1 \<ge> perSecond personal
                      then (sleep (1000 - (now - lastRequestTime w1)) (late_second e) w1)
                             \<lparr>requestsThisSecond := 0\<rparr>
                      else w1)
                else w1\<lparr>requestsThisSecond := 0\<rparr>);
          w3 = (if requestsThisMinute w2 \<ge> perMinute personal
                then (let w = (sleep (minuteResetTime w2 - now) (late_minute e) w2)
                                \<lparr>requestsThisMinute := 0\<rparr>
                      in w\<lparr>minuteResetTime := clock w + 60000\<rparr>)
                else w2)
      in (case requestQueue w3 of
            [] \<Rightarrow> w3
          | p # rest \<Rightarrow>
              (let w4 = w3\<lparr>requestQueue := rest,
                           dispatched := dispatched w3 @ [(clock w3, p)]\<rparr>;
                   result = executeRequest (apiKey w4) (fetched e);
                   w5 = w4\<lparr>clock := clock w4 + int (latency e)\<rparr>;
                   w6 = (case result of
                           Inr response \<Rightarrow>
                             w5\<lparr>requestsThisSecond := requestsThisSecond w5 + 1,
                                requestsThisMinute := requestsThisMinute w5 + 1,
                                lastRequestTime := clock w5,
                                settled := settled w5 @ [(caller p, Inr response)]\<rparr>
                         | Inl error \<Rightarrow>
                             w5\<lparr>settled := settled w5 @ [(caller p, Inl error)]\<rparr>)
               in sleep 50 (late_delay e) w6)))"

text \<open>
  \<open>processQueue\<close> up to its loop: it returns at once when a worker is alive or the queue
  is empty, and raises \<open>isProcessing\<close> otherwise.
\<close>

definition processQueue :: "'a world \<Rightarrow> 'a world" where
  "processQueue w =
     (if isProcessing w \<or> requestQueue w = [] then w else w\<lparr>isProcessing := True\<rparr>)"

text \<open>
  One turn of the worker: the test of the \<open>while\<close> loop, then either the body or the exit
  that lowers \<open>isProcessing\<close>. Without a live worker nothing happens.
\<close>

definition turn :: "'a env \<Rightarrow> 'a world \<Rightarrow> 'a world" where
  "turn e w =
     (if \<not> isProcessing w then w
      else if requestQueue w = [] then w\<lparr>isProcessing := False\<rparr>
      else loop_body e w)"

text \<open>\<open>makeRequest\<close>: push the request, then call \<open>processQueue\<close>.\<close>

definition makeRequest :: "string \<Rightarrow> nat \<Rightarrow> 'a world \<Rightarrow> 'a world" where
  "makeRequest u c w =
     processQueue (w\<lparr>requestQueue := requestQueue w @ [\<lparr>url = u, caller = c\<rparr>]\<rparr>)"

text \<open>
  A run of the client is a sequence of events: a caller submits a request, time passes,
  or the worker takes a turn. Submissions between two turns are the ones that arrive
  while the worker is suspended; they only append to the queue, whose head the worker
  takes.
\<close>

datatype 'a event = Submit string nat | Elapse nat | Turn "'a env"

fun step :: "'a event \<Rightarrow> 'a world \<Rightarrow> 'a world" where
  "step (Submit u c) w = makeRequest u c w"
| "step (Elapse d) w = w\<lparr>clock := clock w + int d\<rparr>"
| "step (Turn e) w = turn e w"

fun run :: "'a event list \<Rightarrow> 'a world \<Rightarrow> 'a world" where
  "run [] w = w"
| "run (e # es) w = run es (step e w)"

text \<open>The requests submitted by a sequence of events, in order.\<close>

fun submissions :: "'a event list \<Rightarrow> pending list" where
  "submissions [] = []"
| "submissions (Submit u c # es) = \<lparr>url = u, caller = c\<rparr> # submissions es"
| "submissions (_ # es) = submissions es"


section \<open>The lookups of RiotApiClient\<close>

text \<open>
  The records the code reads and builds. A field shared by several JavaScript objects
  (\<open>tier\<close>, \<open>rank\<close>, \<open>wins\<close>, \<open>losses\<close>, ...) is declared once, in a record the others
  extend. The type \<open>'s\<close> of \<open>tier\<close> and \<open>rank\<close> is \<open>string\<close> in the real client's objects
  and \<open>string option\<close> in the synthetic client's, where \<open>randomChoice\<close> can yield
  \<open>undefined\<close>. \<open>lastUpdated\<close> is the instant \<open>new Date()\<close> reads, in milliseconds, not
  its ISO-8601 text.
\<close>

record 's standing =
  tier :: 's
  rank :: 's
  wins :: int
  losses :: int

record 's ranked_stats = "'s standing" +
  leaguePoints :: int
  veteran :: bool
  inactive :: bool
  freshBlood :: bool
  hotStreak :: bool

record league_entry = "string ranked_stats" +
  queueType :: string

record 's ranked_info = "'s ranked_stats" +
  summonerId :: string
  summonerName :: string
  summonerLevel :: int
  lastUpdated :: int

record account =
  puuid :: string

record summoner =
  summoner_id :: string
  summoner_name :: string
  summoner_level :: int

text \<open>
  The network: what \<open>fetch\<close> yields for a URL, with the body decoded at the type the
  caller of each endpoint reads. The live-game body may be JSON \<open>null\<close> (\<open>None\<close>).
\<close>

record 'g network =
  fetch_account :: "string \<Rightarrow> error + account response"
  fetch_summoner :: "string \<Rightarrow> error + summoner response"
  fetch_league :: "string \<Rightarrow> error + league_entry list response"
  fetch_spectator :: "string \<Rightarrow> error + 'g option response"

text \<open>
  \<open>await this.makeRequest(url)\<close> as its caller sees it: the worker settles the promise
  with the outcome of \<open>executeRequest\<close> on this request, whatever else is queued.
\<close>

definition await_makeRequest ::
  "string option \<Rightarrow> (string \<Rightarrow> error + 'a response) \<Rightarrow> string \<Rightarrow> error + 'a" where
  "await_makeRequest key fetch u = executeRequest key (fetch u)"

definition getAccountByRiotId ::
  "string option \<Rightarrow> 'g network \<Rightarrow> string option \<Rightarrow> string option \<Rightarrow> error + account" where
  "getAccountByRiotId key net gameName' tagLine' =
     await_makeRequest key (fetch_account net)
       (baseUrl_americas @
        replace ''{tagLine}'' (encodeURIComponent (to_string tagLine'))
          (replace ''{gameName}'' (encodeURIComponent (to_string gameName')) endpoint_account))"

definition getSummonerByPuuid ::
  "string option \<Rightarrow> 'g network \<Rightarrow> string \<Rightarrow> string \<Rightarrow> error + summoner" where
  "getSummonerByPuuid key net puuid' region =
     await_makeRequest key (fetch_summoner net)
       (''https://'' @ region @ ''.api.riotgames.com'' @ replace ''{puuid}'' puuid' endpoint_summoner)"

definition getLeagueEntriesBySummonerId ::
  "string option \<Rightarrow> 'g network \<Rightarrow> string \<Rightarrow> string \<Rightarrow> error + league_entry list" where
  "getLeagueEntriesBySummonerId key net summonerId' region =
     await_makeRequest key (fetch_league net)
       (''https://'' @ region @ ''.api.riotgames.com'' @
        replace ''{summonerId}'' summonerId' endpoint_league)"

definition getCurrentGameBySummonerId ::
  "string option \<Rightarrow> 'g network \<Rightarrow> string \<Rightarrow> string \<Rightarrow> error + 'g option" where
  "getCurrentGameBySummonerId key net summonerId' region =
     await_makeRequest key (fetch_spectator net)
       (''https://'' @ region @ ''.api.riotgames.com'' @
        replace ''{summonerId}'' summonerId' endpoint_spectator)"

text \<open>
  \<open>getPlayerRankedInfo\<close>. Its \<open>catch\<close> logs and rethrows, so an error of any step is the
  result. \<open>now\<close> is the instant \<open>new Date()\<close> reads.
\<close>

definition getPlayerRankedInfo ::
  "string option \<Rightarrow> 'g network \<Rightarrow> int \<Rightarrow> string \<Rightarrow> string \<Rightarrow> error + string ranked_info" where
  "getPlayerRankedInfo key net now riotId region =
     (let parsed = parseRiotId riotId
      in case getAccountByRiotId key net (gameName parsed) (tagLine parsed) of
           Inl e \<Rightarrow> Inl e
         | Inr accountData \<Rightarrow>
        (case getSummonerByPuuid key net (puuid accountData) region of
           Inl e \<Rightarrow> Inl e
         | Inr summonerData \<Rightarrow>
        (case getLeagueEntriesBySummonerId key net (summoner_id summonerData) region of
           Inl e \<Rightarrow> Inl e
         | Inr leagueEntries \<Rightarrow>
        (case find (\<lambda>entry. queueType entry = ''RANKED_SOLO_5x5'') leagueEntries of
           None \<Rightarrow> Inl (Error ''No ranked solo queue data found'')
         | Some soloQueue \<Rightarrow>
             Inr \<lparr>tier = tier soloQueue,
                  rank = rank soloQueue,
                  wins = wins soloQueue,
                  losses = losses soloQueue,
                  leaguePoints = leaguePoints soloQueue,
                  veteran = veteran soloQueue,
                  inactive = inactive soloQueue,
                  freshBlood = freshBlood soloQueue,
                  hotStreak = hotStreak soloQueue,
                  summonerId = summoner_id summonerData,
                  summonerName = summoner_name summonerData,
                  summonerLevel = summoner_level summonerData,
                  lastUpdated = now\<rparr>))))"

text \<open>The fields of the caller's player record that \<open>isPlayerInGame\<close> reads and writes.\<close>

record player =
  player_riotId :: string
  player_region :: string
  player_summonerId :: "string option"

text \<open>The \<open>catch\<close> clause of \<open>isPlayerInGame\<close>.\<close>

definition inGame_catch :: "error \<Rightarrow> error + bool" where
  "inGame_catch e = (if str_includes (message e) ''404'' then Inr False else Inl e)"

text \<open>
  \<open>isPlayerInGame\<close>: the player record as the call leaves it, and the result or the error
  thrown.
\<close>

definition isPlayerInGame ::
  "string option \<Rightarrow> 'g network \<Rightarrow> int \<Rightarrow> player \<Rightarrow> player \<times> (error + bool)" where
  "isPlayerInGame key net now p =
     (let looked =
            (if \<not> truthy (player_summonerId p)
             then (case getPlayerRankedInfo key net now (player_riotId p) (player_region p) of
                     Inl e \<Rightarrow> Inl e
                   | Inr rankedInfo \<Rightarrow> Inr (p\<lparr>player_summonerId := Some (summonerId rankedInfo)\<rparr>))
             else Inr p)
      in case looked of
           Inl e \<Rightarrow> (p, inGame_catch e)
         | Inr p1 \<Rightarrow>
             (case getCurrentGameBySummonerId key net
                     (to_string (player_summonerId p1)) (player_region p1) of
                Inl e \<Rightarrow> (p1, inGame_catch e)
              | Inr gameData \<Rightarrow> (p1, Inr (gameData \<noteq> None))))"

section \<open>MockRiotApiClient\<close>

record mock_data = "string option standing" +
  lp :: int

text \<open>
  The synthetic client: its map of records, and \<open>drawn\<close>, the number of calls of
  \<open>Math.random()\<close> made so far. The \<open>k\<close>-th call yields \<open>rnd k\<close>.
\<close>

record MockRiotApiClient =
  mockData :: "string \<Rightarrow> mock_data option"
  drawn :: nat

definition mockPlayers :: "mock_data list" where
  "mockPlayers =
     [\<lparr>tier = Some ''SILVER'', rank = Some ''II'', wins = 12, losses = 8, lp = 45\<rparr>,
      \<lparr>tier = Some ''GOLD'', rank = Some ''IV'', wins = 25, losses = 18, lp = 78\<rparr>,
      \<lparr>tier = Some ''BRONZE'', rank = Some ''I'', wins = 8, losses = 12, lp = 23\<rparr>,
      \<lparr>tier = Some ''PLATINUM'', rank = Some ''III'', wins = 45, losses = 32, lp = 56\<rparr>,
      \<lparr>tier = Some ''IRON'', rank = Some ''II'', wins = 5, losses = 15, lp = 67\<rparr>]"

text \<open>\<open>initializeMockData\<close>: the record at \<open>index\<close> is stored under \<open>`player${index}`\<close>.\<close>

fun initializeMockData ::
  "nat \<Rightarrow> mock_data list \<Rightarrow> (string \<Rightarrow> mock_data option) \<Rightarrow> (string \<Rightarrow> mock_data option)" where
  "initializeMockData index [] m = m"
| "initializeMockData index (d # ds) m =
     initializeMockData (Suc index) ds (m(''player'' @ show_nat index \<mapsto> d))"

definition new_MockRiotApiClient :: MockRiotApiClient where
  "new_MockRiotApiClient =
     \<lparr>mockData = initializeMockData 0 mockPlayers Map.empty, drawn = 0\<rparr>"

definition tiers :: "string list" where
  "tiers = [''IRON'', ''BRONZE'', ''SILVER'', ''GOLD'', ''PLATINUM'']"

definition ranks :: "string list" where
  "ranks = [''IV'', ''III'', ''II'', ''I'']"

text \<open>
  The record generated for a name not seen before, from the five draws that start at
  \<open>i\<close>, in the order of the object literal.
\<close>

definition generate :: "(nat \<Rightarrow> rat) \<Rightarrow> nat \<Rightarrow> mock_data" where
  "generate rnd i =
     \<lparr>tier = randomChoice (rnd i) tiers,
      rank = randomChoice (rnd (i + 1)) ranks,
      wins = randomInt (rnd (i + 3)) 5 50,
      losses = randomInt (rnd (i + 4)) 5 50,
      lp = randomInt (rnd (i + 2)) 0 100\<rparr>"

text \<open>
  The progression step, from the draws that start at \<open>j\<close>: the first decides whether it
  happens (\<open>Math.random() < 0.3\<close>), the next three are its increments.
\<close>

definition progress :: "(nat \<Rightarrow> rat) \<Rightarrow> nat \<Rightarrow> mock_data \<Rightarrow> mock_data \<times> nat" where
  "progress rnd j d =
     (if rnd j < 3 / 10
      then (let d1 = d\<lparr>wins := wins d + randomInt (rnd (j + 1)) 0 2\<rparr>;
                d2 = d1\<lparr>losses := losses d1 + randomInt (rnd (j + 2)) 0 1\<rparr>;
                d3 = d2\<lparr>lp := lp d2 + randomInt (rnd (j + 3)) (- 10) 15\<rparr>
            in (d3\<lparr>lp := max 0 (min 100 (lp d3))\<rparr>, j + 4))
      else (d, j + 1))"

text \<open>
  \<open>MockRiotApiClient.getPlayerRankedInfo\<close>: the returned record and the client after the
  call. \<open>lc\<close> is \<open>String.prototype.toLowerCase\<close>, \<open>now\<close> the instant \<open>new Date()\<close> reads.
  The stored record is mutated in place, so the map holds the record after the
  progression step.
\<close>

definition mock_getPlayerRankedInfo ::
  "(nat \<Rightarrow> rat) \<Rightarrow> (string \<Rightarrow> string) \<Rightarrow> int \<Rightarrow> MockRiotApiClient \<Rightarrow> string \<Rightarrow> string \<Rightarrow>
     string option ranked_info \<times> MockRiotApiClient" where
  "mock_getPlayerRankedInfo rnd lc now c riotId region =
     (let name = to_string (gameName (parseRiotId riotId));
          i = drawn c;
          (d0, j) = (case mockData c (lc name) of
                       Some d \<Rightarrow> (d, i)
                     | None \<Rightarrow> (generate rnd i, i + 5));
          (d, k) = progress rnd j d0
      in (\<lparr>tier = tier d,
           rank = rank d,
           wins = wins d,
           losses = losses d,
           leaguePoints = lp d,
           veteran = (rnd (k + 1) < 1 / 10),
           inactive = (rnd (k + 2) < 5 / 100),
           freshBlood = (rnd (k + 3) < 1 / 10),
           hotStreak = (rnd (k + 4) < 15 / 100),
           summonerId = ''summoner_'' @ lc name,
           summonerName = name,
           summonerLevel = randomInt (rnd k) 30 200,
           lastUpdated = now\<rparr>,
          c\<lparr>mockData := (mockData c)(lc name \<mapsto> d), drawn := k + 5\<rparr>))"

text \<open>
  A sequence of lookups, one call after the other, each with its Riot ID, its region and
  the instant \<open>new Date()\<close> reads: the records returned, in order, and the client at the
  end.
\<close>

fun lookups ::
  "(nat \<Rightarrow> rat) \<Rightarrow> (string \<Rightarrow> string) \<Rightarrow> MockRiotApiClient \<Rightarrow> (string \<times> string \<times> int) list \<Rightarrow>
     string option ranked_info list \<times> MockRiotApiClient" where
  "lookups rnd lc c [] = ([], c)"
| "lookups rnd lc c ((riotId, region, now) # rest) =
     (let (r, c1) = mock_getPlayerRankedInfo rnd lc now c riotId region;
          (rs, c2) = lookups rnd lc c1 rest
      in (r # rs, c2))"

text \<open>The key a Riot ID is stored under: \<open>gameName.toLowerCase()\<close>.\<close>

definition stored_under :: "(string \<Rightarrow> string) \<Rightarrow> string \<Rightarrow> string" where
  "stored_under lc riotId = lc (to_string (gameName (parseRiotId riotId)))"

text \<open>
  A stored record is in range: its tier and its division are of the two enumerations and
  its points are between 0 and 100.
\<close>

definition in_range :: "mock_data \<Rightarrow> bool" where
  "in_range d =
     (tier d \<in> Some ` set tiers \<and> rank d \<in> Some ` set ranks \<and> 0 \<le> lp d \<and> lp d \<le> 100)"

definition all_in_range :: "MockRiotApiClient \<Rightarrow> bool" where
  "all_in_range c = (\<forall>k d. mockData c k = Some d \<longrightarrow> in_range d)"

definition mock_getApiKey :: "MockRiotApiClient \<Rightarrow> string option" where
  "mock_getApiKey c = Some ''mock_api_key''"

definition mock_hasApiKey :: "MockRiotApiClient \<Rightarrow> bool" where
  "mock_hasApiKey c = True"

section \<open>ApiManager\<close>

text \<open>
  \<open>RiotApiClient.setApiKey\<close>: the client, and the value \<open>Storage.save\<close> leaves under
  \<open>riot_api_key\<close>.
\<close>

definition setApiKey :: "string option \<Rightarrow> RiotApiClient \<Rightarrow> RiotApiClient \<times> string option" where
  "setApiKey key c = (c\<lparr>apiKey := key\<rparr>, key)"

definition getApiKey :: "RiotApiClient \<Rightarrow> string option" where
  "getApiKey c = apiKey c"

record ApiManager =
  realClient :: RiotApiClient
  mockClient :: MockRiotApiClient
  useMockApi :: bool

text \<open>The constructor, given the stored credential and \<open>Date.now()\<close>.\<close>

definition new_ApiManager :: "string option \<Rightarrow> int \<Rightarrow> ApiManager" where
  "new_ApiManager stored now =
     (let real = new_RiotApiClient None stored now
      in \<lparr>realClient = real, mockClient = new_MockRiotApiClient,
          useMockApi = (\<not> hasApiKey real)\<rparr>)"

datatype current_client = Mock MockRiotApiClient | Real RiotApiClient

definition getCurrentClient :: "ApiManager \<Rightarrow> current_client" where
  "getCurrentClient m = (if useMockApi m then Mock (mockClient m) else Real (realClient m))"

definition manager_setApiKey :: "string option \<Rightarrow> ApiManager \<Rightarrow> ApiManager \<times> string option" where
  "manager_setApiKey key m =
     (let (c, stored) = setApiKey key (realClient m)
      in (m\<lparr>realClient := c, useMockApi := False\<rparr>, stored))"

definition isUsingMockApi :: "ApiManager \<Rightarrow> bool" where
  "isUsingMockApi m = useMockApi m"

definition useMock :: "ApiManager \<Rightarrow> ApiManager" where
  "useMock m = m\<lparr>useMockApi := True\<rparr>"

definition useReal :: "ApiManager \<Rightarrow> error + ApiManager" where
  "useReal m =
     (if hasApiKey (realClient m) then Inr (m\<lparr>useMockApi := False\<rparr>)
      else Inl (Error ''No API key set for real API client''))"

definition manager_hasApiKey :: "ApiManager \<Rightarrow> bool" where
  "manager_hasApiKey m =
     (case getCurrentClient m of Mock c \<Rightarrow> mock_hasApiKey c | Real c \<Rightarrow> hasApiKey c)"

definition manager_getApiKey :: "ApiManager \<Rightarrow> string option" where
  "manager_getApiKey m =
     (case getCurrentClient m of Mock c \<Rightarrow> mock_getApiKey c | Real c \<Rightarrow> getApiKey c)"

section \<open>Concrete inputs\<close>

text \<open>
  A network on which the three lookups of a player succeed; the ranked entries hold one
  flex-queue entry and one solo-queue entry. The live-game endpoint answers 404, as the
  upstream API does for a player who is not in a game.
\<close>

definition flex_entry :: league_entry where
  "flex_entry =
     \<lparr>tier = ''GOLD'', rank = ''I'', wins = 3, losses = 4, leaguePoints = 10,
      veteran = False, inactive = False, freshBlood = True, hotStreak = False,
      queueType = ''RANKED_FLEX_SR''\<rparr>"

definition solo_entry :: league_entry where
  "solo_entry =
     \<lparr>tier = ''SILVER'', rank = ''II'', wins = 12, losses = 8, leaguePoints = 45,
      veteran = False, inactive = False, freshBlood = False, hotStreak = True,
      queueType = ''RANKED_SOLO_5x5''\<rparr>"

definition not_found :: "'a response" where
  "not_found =
     \<lparr>status = 404, errorData = Some None, json = Inl (Error ''Unexpected end of JSON input'')\<rparr>"

definition net_entries :: "league_entry list \<Rightarrow> unit network" where
  "net_entries entries =
     \<lparr>fetch_account = (\<lambda>u. Inr \<lparr>status = 200, errorData = Some None,
                                  json = Inr \<lparr>puuid = ''P-1''\<rparr>\<rparr>),
      fetch_summoner = (\<lambda>u. Inr \<lparr>status = 200, errorData = Some None,
                                   json = Inr \<lparr>summoner_id = ''S-1'', summoner_name = ''Foo'',
                                               summoner_level = 42\<rparr>\<rparr>),
      fetch_league = (\<lambda>u. Inr \<lparr>status = 200, errorData = Some None, json = Inr entries\<rparr>),
      fetch_spectator = (\<lambda>u. Inr not_found)\<rparr>"

text \<open>
  A network that answers by URL: each of the three lookups of \<open>Foo Bar#NA1\<close> on \<open>euw1\<close>
  succeeds at the URL the upstream API serves it at, and every other URL is answered
  with 404.
\<close>

definition routed :: "league_entry list \<Rightarrow> unit network" where
  "routed entries =
     \<lparr>fetch_account =
        (\<lambda>u. if u = ''https://americas.api.riotgames.com/riot/account/v1/accounts/by-riot-id/Foo%20Bar/NA1''
              then Inr \<lparr>status = 200, errorData = Some None, json = Inr \<lparr>puuid = ''P-1''\<rparr>\<rparr>
              else Inr not_found),
      fetch_summoner =
        (\<lambda>u. if u = ''https://euw1.api.riotgames.com/lol/summoner/v4/summoners/by-puuid/P-1''
              then Inr \<lparr>status = 200, errorData = Some None,
                        json = Inr \<lparr>summoner_id = ''S-1'', summoner_name = ''Foo'',
                                    summoner_level = 42\<rparr>\<rparr>
              else Inr not_found),
      fetch_league =
        (\<lambda>u. if u = ''https://euw1.api.riotgames.com/lol/league/v4/entries/by-summoner/S-1''
              then Inr \<lparr>status = 200, errorData = Some None, json = Inr entries\<rparr>
              else Inr not_found),
      fetch_spectator = (\<lambda>u. Inr not_found)\<rparr>"

definition solo_info :: "string ranked_info" where
  "solo_info =
     \<lparr>tier = ''SILVER'', rank = ''II'', wins = 12, losses = 8, leaguePoints = 45,
      veteran = False, inactive = False, freshBlood = False, hotStreak = True,
      summonerId = ''S-1'', summonerName = ''Foo'', summonerLevel = 42, lastUpdated = 7\<rparr>"

text \<open>A network whose every endpoint answers 404.\<close>

definition net_404 :: "unit network" where
  "net_404 =
     \<lparr>fetch_account = (\<lambda>u. Inr not_found), fetch_summoner = (\<lambda>u. Inr not_found),
      fetch_league = (\<lambda>u. Inr not_found), fetch_spectator = (\<lambda>u. Inr not_found)\<rparr>"

text \<open>
  \<open>toLowerCase\<close> on ASCII letters, a source of random numbers that alternates between
  \<open>4/5\<close> and \<open>1/5\<close>, and three lookups: \<open>Foo#NA1\<close>, another player, and \<open>FOO#NA1\<close>, which is
  stored under the key of the first.
\<close>

definition lower_ascii :: "string \<Rightarrow> string" where
  "lower_ascii s =
     map (\<lambda>c. case find (\<lambda>p. fst p = c)
                       (zip ''ABCDEFGHIJKLMNOPQRSTUVWXYZ'' ''abcdefghijklmnopqrstuvwxyz'') of
                None \<Rightarrow> c
              | Some p \<Rightarrow> snd p) s"

definition alternating :: "nat \<Rightarrow> rat" where
  "alternating i = (if even i then 4 / 5 else 1 / 5)"

definition three_lookups :: "(string \<times> string \<times> int) list" where
  "three_lookups = [(''Foo#NA1'', ''euw1'', 1), (''Bar#EUW'', ''euw1'', 2), (''FOO#NA1'', ''na1'', 3)]"

definition cached_player :: player where
  "cached_player =
     \<lparr>player_riotId = ''Foo#NA1'', player_region = ''euw1'', player_summonerId = Some ''S-1''\<rparr>"

text \<open>
  A request that succeeds after 30 milliseconds and one that is answered with status 500
  after 30 milliseconds; every timer fires on time.
\<close>

definition ok_env :: "unit env" where
  "ok_env =
     \<lparr>fetched = Inr \<lparr>status = 200, errorData = Some None, json = Inr ()\<rparr>,
      latency = 30, late_second = 0, late_minute = 0, late_delay = 0\<rparr>"

definition fail_env :: "unit env" where
  "fail_env =
     \<lparr>fetched = Inr \<lparr>status = 500, errorData = Some None, json = Inl (Error ''Unexpected end of JSON input'')\<rparr>,
      latency = 30, late_second = 0, late_minute = 0, late_delay = 0\<rparr>"

text \<open>The instant a client is built at, in milliseconds since the epoch.\<close>

definition built_at :: int where
  "built_at = 1700000000000"


text \<open>A client with a credential and three requests submitted at once.\<close>

definition three_queued :: "unit world" where
  "three_queued = run [Submit ''a'' 1, Submit ''b'' 2, Submit ''c'' 3] (start (Some ''k'') None built_at)"




section \<open>Properties of a run\<close>



section \<open>Riot IDs\<close>

lemma split_unfold:
  "split sep s =
     takeWhile (\<lambda>c. c \<noteq> sep) s #
     (case dropWhile (\<lambda>c. c \<noteq> sep) s of [] \<Rightarrow> [] | _ # r \<Rightarrow> split sep r)"
  by (induction s) (auto split: list.splits)

lemma split_first: "nth_opt (split sep s) 0 = Some (takeWhile (\<lambda>c. c \<noteq> sep) s)"
  by (subst split_unfold) simp

lemma split_second:
  "nth_opt (split sep s) (Suc 0) =
     (case dropWhile (\<lambda>c. c \<noteq> sep) s of
        [] \<Rightarrow> None
      | _ # r \<Rightarrow> Some (takeWhile (\<lambda>c. c \<noteq> sep) r))"
proof (cases "dropWhile (\<lambda>c. c \<noteq> sep) s")
  case Nil
  have "split sep s = [takeWhile (\<lambda>c. c \<noteq> sep) s]"
    by (subst split_unfold) (simp only: Nil list.case)
  then show ?thesis by (simp only: Nil list.case nth_opt.simps)
next
  case (Cons x r)
  have "split sep s = takeWhile (\<lambda>c. c \<noteq> sep) s # split sep r"
    by (subst split_unfold) (simp only: Cons list.case)
  then show ?thesis using split_first [of sep r] by (simp only: Cons list.case nth_opt.simps)
qed

lemma gameName_parse: "gameName (parseRiotId s) = Some (takeWhile (\<lambda>c. c \<noteq> CHR ''#'') s)"
  by (simp add: parseRiotId_def split_first)

lemma tagLine_parse:
  "tagLine (parseRiotId s) =
     (case dropWhile (\<lambda>c. c \<noteq> CHR ''#'') s of
        [] \<Rightarrow> None
      | _ # r \<Rightarrow> Some (takeWhile (\<lambda>c. c \<noteq> CHR ''#'') r))"
  by (simp add: parseRiotId_def split_second)

lemma tagLine_None: "(tagLine (parseRiotId s) = None) = (CHR ''#'' \<notin> set s)"
proof (cases "dropWhile (\<lambda>c. c \<noteq> CHR ''#'') s")
  case Nil
  then have "CHR ''#'' \<notin> set s" by (auto simp: dropWhile_eq_Nil_conv)
  then show ?thesis using Nil by (simp add: tagLine_parse del: dropWhile_eq_Nil_conv)
next
  case (Cons x r)
  then have "dropWhile (\<lambda>c. c \<noteq> CHR ''#'') s \<noteq> []" by simp
  then have "CHR ''#'' \<in> set s" by (auto simp: dropWhile_eq_Nil_conv)
  then show ?thesis using Cons by (simp add: tagLine_parse)
qed

lemma validate_iff:
  "validateRiotId s =
     (\<exists>n t. s = n @ CHR ''#'' # t \<and> n \<noteq> [] \<and> t \<noteq> [] \<and>
            CHR ''#'' \<notin> set n \<and> CHR ''#'' \<notin> set t)"
proof
  assume v: "validateRiotId s"
  let ?P = "\<lambda>c. c \<noteq> CHR ''#''"
  from v obtain x t where r: "dropWhile ?P s = x # t" and n: "takeWhile ?P s \<noteq> []"
      and t: "t \<noteq> []" "list_all ?P t"
    by (auto simp: validateRiotId_def Let_def split: list.splits)
  have "\<not> ?P (hd (dropWhile ?P s))"
    by (rule hd_dropWhile) (simp only: r list.distinct not_False_eq_True)
  then have x: "x = CHR ''#''" by (simp only: r list.sel) simp
  have s: "s = takeWhile ?P s @ CHR ''#'' # t"
    using takeWhile_dropWhile_id [of ?P s] by (simp only: r x)
  have n': "CHR ''#'' \<notin> set (takeWhile ?P s)"
    using set_takeWhileD [of "CHR ''#''" ?P s] by blast
  have t': "CHR ''#'' \<notin> set t" using t(2) by (auto simp: list_all_iff)
  show "\<exists>n t. s = n @ CHR ''#'' # t \<and> n \<noteq> [] \<and> t \<noteq> [] \<and>
            CHR ''#'' \<notin> set n \<and> CHR ''#'' \<notin> set t"
    using s n t(1) n' t' by blast
next
  assume "\<exists>n t. s = n @ CHR ''#'' # t \<and> n \<noteq> [] \<and> t \<noteq> [] \<and>
            CHR ''#'' \<notin> set n \<and> CHR ''#'' \<notin> set t"
  then obtain n t where s: "s = n @ CHR ''#'' # t" and n: "n \<noteq> []" and t: "t \<noteq> []"
      and n': "CHR ''#'' \<notin> set n" and t': "CHR ''#'' \<notin> set t"
    by blast
  let ?P = "\<lambda>c. c \<noteq> CHR ''#''"
  have all: "\<And>c. c \<in> set n \<Longrightarrow> ?P c" using n' by blast
  have tk: "takeWhile ?P s = n"
    unfolding s using takeWhile_append2 [of n ?P "CHR ''#'' # t"] all by simp
  have dr: "dropWhile ?P s = CHR ''#'' # t"
    unfolding s using dropWhile_append2 [of n ?P "CHR ''#'' # t"] all by simp
  show "validateRiotId s"
    unfolding validateRiotId_def Let_def tk dr using n t t' by (auto simp: list_all_iff)
qed

lemma parse_two_parts:
  assumes "CHR ''#'' \<notin> set n" and "CHR ''#'' \<notin> set t"
  shows "parseRiotId (n @ CHR ''#'' # t) = \<lparr>gameName = Some n, tagLine = Some t\<rparr>"
proof -
  let ?P = "\<lambda>c. c \<noteq> CHR ''#''"
  have all: "\<And>c. c \<in> set n \<Longrightarrow> ?P c" using assms(1) by blast
  have tk: "takeWhile ?P (n @ CHR ''#'' # t) = n"
    using takeWhile_append2 [of n ?P "CHR ''#'' # t"] all by simp
  have dr: "dropWhile ?P (n @ CHR ''#'' # t) = CHR ''#'' # t"
    using dropWhile_append2 [of n ?P "CHR ''#'' # t"] all by simp
  have tt: "takeWhile ?P t = t" using assms(2) by (auto intro: takeWhile_eq_all_conv [THEN iffD2])
  have g: "gameName (parseRiotId (n @ CHR ''#'' # t)) = Some n"
    by (simp only: gameName_parse tk)
  have l: "tagLine (parseRiotId (n @ CHR ''#'' # t)) = Some t"
    by (simp only: tagLine_parse dr list.case tt)
  show ?thesis using g l by (cases "parseRiotId (n @ CHR ''#'' # t)") simp
qed

lemma count_two_parts:
  assumes "CHR ''#'' \<notin> set n" and "CHR ''#'' \<notin> set t"
  shows "count_list (n @ CHR ''#'' # t) CHR ''#'' = 1"
  using assms by (simp add: count_list_0_iff)

text \<open>
  C4, as the code has it. \<open>parseRiotId\<close> never fails: the name is the text before the
  first \<open>#\<close>, the tag is the text between the first \<open>#\<close> and the second (or the end), and
  the tag is missing exactly when the string has no \<open>#\<close>. The requirement of one
  separator is the separate test \<open>validateRiotId\<close>, which holds exactly for a non-empty
  name, one \<open>#\<close> and a non-empty tag; on such a string \<open>parseRiotId\<close> returns the two
  sides. \<open>Foo#NA1\<close> parses to the name \<open>Foo\<close> and the tag \<open>NA1\<close>.
\<close>

theorem parseRiotId_never_fails:
  "gameName (parseRiotId s) = Some (takeWhile (\<lambda>c. c \<noteq> CHR ''#'') s) \<and>
   tagLine (parseRiotId s) =
     (case dropWhile (\<lambda>c. c \<noteq> CHR ''#'') s of
        [] \<Rightarrow> None
      | _ # r \<Rightarrow> Some (takeWhile (\<lambda>c. c \<noteq> CHR ''#'') r)) \<and>
   (tagLine (parseRiotId s) = None) = (CHR ''#'' \<notin> set s) \<and>
   validateRiotId s =
     (\<exists>n t. s = n @ CHR ''#'' # t \<and> n \<noteq> [] \<and> t \<noteq> [] \<and>
            CHR ''#'' \<notin> set n \<and> CHR ''#'' \<notin> set t) \<and>
   (validateRiotId s \<longrightarrow>
      count_list s CHR ''#'' = 1 \<and>
      (\<exists>n t. s = n @ CHR ''#'' # t \<and>
             parseRiotId s = \<lparr>gameName = Some n, tagLine = Some t\<rparr>)) \<and>
   parseRiotId ''Foo#NA1'' = \<lparr>gameName = Some ''Foo'', tagLine = Some ''NA1''\<rparr>"
proof -
  have valid: "validateRiotId s \<longrightarrow>
      count_list s CHR ''#'' = 1 \<and>
      (\<exists>n t. s = n @ CHR ''#'' # t \<and>
             parseRiotId s = \<lparr>gameName = Some n, tagLine = Some t\<rparr>)"
  proof
    assume "validateRiotId s"
    then obtain n t where s: "s = n @ CHR ''#'' # t"
        and n: "CHR ''#'' \<notin> set n" and t: "CHR ''#'' \<notin> set t"
      unfolding validate_iff by blast
    show "count_list s CHR ''#'' = 1 \<and>
      (\<exists>n t. s = n @ CHR ''#'' # t \<and>
             parseRiotId s = \<lparr>gameName = Some n, tagLine = Some t\<rparr>)"
      using count_two_parts [OF n t] parse_two_parts [OF n t] unfolding s by blast
  qed
  have foo: "parseRiotId ''Foo#NA1'' = \<lparr>gameName = Some ''Foo'', tagLine = Some ''NA1''\<rparr>"
    by (simp add: parseRiotId_def)
  show ?thesis
    using gameName_parse [of s] tagLine_parse [of s] tagLine_None [of s] validate_iff [of s]
      valid foo
    by blast
qed

text \<open>
  The theorem at \<open>Foo#NA1\<close>, which \<open>validateRiotId\<close> accepts, and at \<open>a#b#c#d\<close>, whose
  tag is \<open>b\<close>.
\<close>

theorem parseRiotId_never_fails_witness:
  "validateRiotId ''Foo#NA1'' \<and> count_list ''Foo#NA1'' CHR ''#'' = 1 \<and>
   gameName (parseRiotId ''Foo#NA1'') = Some ''Foo'' \<and>
   tagLine (parseRiotId ''a#b#c#d'') = Some ''b''"
proof -
  have v: "validateRiotId ''Foo#NA1''" by (simp add: validateRiotId_def)
  show ?thesis
    using v parseRiotId_never_fails [of "''Foo#NA1''"] parseRiotId_never_fails [of "''a#b#c#d''"]
    by simp
qed

text \<open>
  Against C4 as stated: with no separator and with two separators \<open>parseRiotId\<close> returns
  a record, and the lookup of \<open>a#b#c\<close> goes on to the network and succeeds.
\<close>

theorem parseRiotId_accepts_malformed:
  "parseRiotId ''NoSeparator'' = \<lparr>gameName = Some ''NoSeparator'', tagLine = None\<rparr> \<and>
   parseRiotId ''a#b#c'' = \<lparr>gameName = Some ''a'', tagLine = Some ''b''\<rparr> \<and>
   getPlayerRankedInfo (Some ''k'') (net_entries [flex_entry, solo_entry]) 7 ''a#b#c'' ''euw1''
     = Inr solo_info"
  by (simp add: parseRiotId_def getPlayerRankedInfo_def getAccountByRiotId_def
      getSummonerByPuuid_def getLeagueEntriesBySummonerId_def await_makeRequest_def
      executeRequest_def truthy_def ok_def net_entries_def flex_entry_def solo_entry_def
      solo_info_def)

section \<open>Transport errors\<close>

text \<open>
  C6, as the code has it. A response outside 200 to 299 makes \<open>executeRequest\<close> fail with
  the error of \<open>handleApiError\<close>. For the statuses 400, 401, 403, 404, 429, 500 and 503
  that error carries the canned message of the status, whatever the body says; for any
  other status it carries the message of the JSON body when there is a non-empty one,
  and \<open>API Error\<close> followed by the status otherwise. The error has a message and no other
  field.
\<close>

theorem handleApiError_message:
  "(truthy key \<and> \<not> ok r \<longrightarrow> executeRequest key (Inr r) = Inl (handleApiError r)) \<and>
   (status r = 400 \<longrightarrow> handleApiError r = Error ''Bad Request - Invalid parameters'') \<and>
   (status r = 401 \<longrightarrow> handleApiError r = Error ''Unauthorized - Invalid API key'') \<and>
   (status r = 403 \<longrightarrow> handleApiError r = Error ''Forbidden - API key expired or invalid'') \<and>
   (status r = 404 \<longrightarrow> handleApiError r = Error ''Not Found - Player not found'') \<and>
   (status r = 429 \<longrightarrow> handleApiError r = Error ''Rate Limited - Too many requests'') \<and>
   (status r = 500 \<longrightarrow> handleApiError r = Error ''Internal Server Error - Riot API issue'') \<and>
   (status r = 503 \<longrightarrow> handleApiError r = Error ''Service Unavailable - Riot API maintenance'') \<and>
   (status r \<notin> {400, 401, 403, 404, 429, 500, 503} \<longrightarrow>
      handleApiError r =
        (case errorData r of
           Some (Some m) \<Rightarrow> if m \<noteq> [] then Error m else Error (''API Error '' @ show_nat (status r))
         | _ \<Rightarrow> Error (''API Error '' @ show_nat (status r))))"
proof -
  have exec: "truthy key \<and> \<not> ok r \<longrightarrow> executeRequest key (Inr r) = Inl (handleApiError r)"
    by (simp add: executeRequest_def)
  have known: "status r = 400 \<longrightarrow> handleApiError r = Error ''Bad Request - Invalid parameters''"
    "status r = 401 \<longrightarrow> handleApiError r = Error ''Unauthorized - Invalid API key''"
    "status r = 403 \<longrightarrow> handleApiError r = Error ''Forbidden - API key expired or invalid''"
    "status r = 404 \<longrightarrow> handleApiError r = Error ''Not Found - Player not found''"
    "status r = 429 \<longrightarrow> handleApiError r = Error ''Rate Limited - Too many requests''"
    "status r = 500 \<longrightarrow> handleApiError r = Error ''Internal Server Error - Riot API issue''"
    "status r = 503 \<longrightarrow> handleApiError r = Error ''Service Unavailable - Riot API maintenance''"
    by (simp_all add: handleApiError_def)
  have other: "status r \<notin> {400, 401, 403, 404, 429, 500, 503} \<longrightarrow>
      handleApiError r =
        (case errorData r of
           Some (Some m) \<Rightarrow> if m \<noteq> [] then Error m else Error (''API Error '' @ show_nat (status r))
         | _ \<Rightarrow> Error (''API Error '' @ show_nat (status r)))"
    by (simp add: handleApiError_def Let_def truthy_def to_string_def split: option.splits)
  show ?thesis using exec known other by blast
qed

text \<open>
  The theorem at a 404 with a message in its body, and at a status without a canned
  message, with and without a message in its body.
\<close>

theorem handleApiError_message_witness:
  "executeRequest (Some ''k'')
     (Inr \<lparr>status = 404, errorData = Some (Some ''Data not found''), json = Inl (Error [])\<rparr>)
     = (Inl (Error ''Not Found - Player not found'') :: error + unit) \<and>
   handleApiError \<lparr>status = 418, errorData = Some (Some ''teapot''), json = Inl (Error []) :: error + unit\<rparr>
     = Error ''teapot'' \<and>
   handleApiError \<lparr>status = 418, errorData = None, json = Inl (Error []) :: error + unit\<rparr>
     = Error ''API Error 418'' \<and>
   map (\<lambda>st. handleApiError
               \<lparr>status = st, errorData = Some (Some ''from the server''),
                json = Inl (Error []) :: error + unit\<rparr>)
       [400, 401, 403, 429, 500, 503]
     = [Error ''Bad Request - Invalid parameters'', Error ''Unauthorized - Invalid API key'',
        Error ''Forbidden - API key expired or invalid'', Error ''Rate Limited - Too many requests'',
        Error ''Internal Server Error - Riot API issue'',
        Error ''Service Unavailable - Riot API maintenance'']"
proof -
  let ?a = "\<lparr>status = 404, errorData = Some (Some ''Data not found''), json = Inl (Error []) :: error + unit\<rparr>"
  let ?b = "\<lparr>status = 418, errorData = Some (Some ''teapot''), json = Inl (Error []) :: error + unit\<rparr>"
  let ?c = "\<lparr>status = 418, errorData = None, json = Inl (Error []) :: error + unit\<rparr>"
  let ?d = "\<lambda>st. \<lparr>status = st, errorData = Some (Some ''from the server''),
                  json = Inl (Error []) :: error + unit\<rparr>"
  have s: "show_nat 418 = ''418''" by (simp add: show_nat.simps digit_char_def)
  have "truthy (Some ''k'') \<and> \<not> ok ?a" by (simp add: truthy_def ok_def)
  then have a: "executeRequest (Some ''k'') (Inr ?a) = Inl (Error ''Not Found - Player not found'')"
    using handleApiError_message [of "Some ''k''" ?a] by simp
  have b: "handleApiError ?b = Error ''teapot''"
    using handleApiError_message [of "Some ''k''" ?b] by simp
  have c: "handleApiError ?c = Error ''API Error 418''"
    using handleApiError_message [of "Some ''k''" ?c] s by simp
  have d: "handleApiError (?d 400) = Error ''Bad Request - Invalid parameters''"
    "handleApiError (?d 401) = Error ''Unauthorized - Invalid API key''"
    "handleApiError (?d 403) = Error ''Forbidden - API key expired or invalid''"
    "handleApiError (?d 429) = Error ''Rate Limited - Too many requests''"
    "handleApiError (?d 500) = Error ''Internal Server Error - Riot API issue''"
    "handleApiError (?d 503) = Error ''Service Unavailable - Riot API maintenance''"
    using handleApiError_message [of "Some ''k''" "?d 400"]
      handleApiError_message [of "Some ''k''" "?d 401"]
      handleApiError_message [of "Some ''k''" "?d 403"]
      handleApiError_message [of "Some ''k''" "?d 429"]
      handleApiError_message [of "Some ''k''" "?d 500"]
      handleApiError_message [of "Some ''k''" "?d 503"]
    by simp_all
  show ?thesis using a b c d by simp
qed

text \<open>
  Against C6 as stated: the body of a 404 supplies the message \<open>Data not found\<close>, and the
  error does not carry it.
\<close>

theorem handleApiError_drops_server_message:
  "message (handleApiError
      \<lparr>status = 404, errorData = Some (Some ''Data not found''), json = Inl (Error []) :: error + unit\<rparr>)
     \<noteq> ''Data not found''"
  by (simp add: handleApiError_def)

section \<open>The client selector\<close>

text \<open>
  C5, as the code has it. \<open>setApiKey\<close> of the manager switches to the real client for
  every argument, the empty string included; the real client then has a credential
  exactly when the argument is a non-empty string. \<open>useReal\<close> without a credential fails
  with an error and changes nothing; with one it switches to the real client. A manager
  built with nothing stored starts on the synthetic client.
\<close>

theorem setApiKey_always_switches:
  "\<not> isUsingMockApi (fst (manager_setApiKey key m)) \<and>
   hasApiKey (realClient (fst (manager_setApiKey key m))) = truthy key \<and>
   (\<not> hasApiKey (realClient m) \<longrightarrow>
      useReal m = Inl (Error ''No API key set for real API client'')) \<and>
   (hasApiKey (realClient m) \<longrightarrow> useReal m = Inr (m\<lparr>useMockApi := False\<rparr>)) \<and>
   isUsingMockApi (new_ApiManager None now)"
  by (simp add: manager_setApiKey_def setApiKey_def isUsingMockApi_def hasApiKey_def
      useReal_def new_ApiManager_def new_RiotApiClient_def truthy_def)

text \<open>
  The theorem at a new manager with nothing stored, and at a manager that holds the
  credential \<open>abc\<close> and was switched to the synthetic client.
\<close>

theorem setApiKey_always_switches_witness:
  "\<not> isUsingMockApi (fst (manager_setApiKey (Some ''abc'') (new_ApiManager None 0))) \<and>
   useReal (new_ApiManager None 0) = Inl (Error ''No API key set for real API client'') \<and>
   useReal (useMock (fst (manager_setApiKey (Some ''abc'') (new_ApiManager None 0))))
     = Inr (fst (manager_setApiKey (Some ''abc'') (new_ApiManager None 0)))"
proof -
  let ?m = "new_ApiManager None 0"
  let ?m1 = "fst (manager_setApiKey (Some ''abc'') ?m)"
  have no: "\<not> hasApiKey (realClient ?m)"
    by (simp add: new_ApiManager_def new_RiotApiClient_def hasApiKey_def truthy_def)
  have yes: "hasApiKey (realClient (useMock ?m1))"
    by (simp add: useMock_def manager_setApiKey_def setApiKey_def hasApiKey_def truthy_def)
  have undo: "(useMock ?m1)\<lparr>useMockApi := False\<rparr> = ?m1"
    by (simp add: useMock_def manager_setApiKey_def setApiKey_def)
  show ?thesis
    using no yes undo setApiKey_always_switches [of "Some ''abc''" ?m 0]
      setApiKey_always_switches [of "Some ''abc''" "useMock ?m1" 0]
    by simp
qed

text \<open>
  Against C5 as stated: after \<open>setApiKey("")\<close> the manager is on the real client, which
  has no credential.
\<close>

theorem setApiKey_empty_leaves_synthetic_mode:
  "\<not> isUsingMockApi (fst (manager_setApiKey (Some '''') (new_ApiManager None 0))) \<and>
   \<not> manager_hasApiKey (fst (manager_setApiKey (Some '''') (new_ApiManager None 0)))"
  by (simp add: manager_setApiKey_def setApiKey_def isUsingMockApi_def manager_hasApiKey_def
      getCurrentClient_def hasApiKey_def new_ApiManager_def new_RiotApiClient_def truthy_def)

text \<open>
  C10. On the synthetic client the manager reports a credential: \<open>hasApiKey\<close> is true
  and \<open>getApiKey\<close> is \<open>mock_api_key\<close>, whatever the real client holds. A manager built
  with no usable stored credential is on the synthetic client.
\<close>

theorem synthetic_mode_reports_credential:
  "(useMockApi m \<longrightarrow> manager_hasApiKey m \<and> manager_getApiKey m = Some ''mock_api_key'') \<and>
   (\<not> truthy stored \<longrightarrow>
      useMockApi (new_ApiManager stored now) \<and>
      manager_hasApiKey (new_ApiManager stored now) \<and>
      manager_getApiKey (new_ApiManager stored now) = Some ''mock_api_key'')"
  by (simp add: manager_hasApiKey_def manager_getApiKey_def getCurrentClient_def
      mock_hasApiKey_def mock_getApiKey_def new_ApiManager_def new_RiotApiClient_def
      hasApiKey_def truthy_def)

text \<open>
  The theorem at a manager on the synthetic client whose real client holds \<open>abc\<close>, and at
  a manager built with the empty string stored.
\<close>

theorem synthetic_mode_reports_credential_witness:
  "manager_hasApiKey (useMock (fst (manager_setApiKey (Some ''abc'') (new_ApiManager None 0)))) \<and>
   manager_getApiKey (useMock (fst (manager_setApiKey (Some ''abc'') (new_ApiManager None 0))))
     = Some ''mock_api_key'' \<and>
   apiKey (realClient (useMock (fst (manager_setApiKey (Some ''abc'') (new_ApiManager None 0)))))
     = Some ''abc'' \<and>
   manager_getApiKey (new_ApiManager (Some '''') 0) = Some ''mock_api_key''"
proof -
  let ?m = "useMock (fst (manager_setApiKey (Some ''abc'') (new_ApiManager None 0)))"
  have mock: "useMockApi ?m" by (simp add: useMock_def)
  have key: "apiKey (realClient ?m) = Some ''abc''"
    by (simp add: useMock_def manager_setApiKey_def setApiKey_def)
  have empty: "\<not> truthy (Some '''')" by (simp add: truthy_def)
  show ?thesis
    using mock key empty synthetic_mode_reports_credential [of ?m "Some ''''" 0] by simp
qed

section \<open>Lookups\<close>

lemma find_filter:
  "find P xs = (case filter P xs of [] \<Rightarrow> None | x # _ \<Rightarrow> Some x)"
  by (induction xs) auto

text \<open>
  C8. When the three requests the lookup makes succeed (the account at the URL built
  from the parsed Riot ID, the summoner at the URL built from the account's \<open>puuid\<close> and
  the region, the ranked entries at the URL built from the summoner's \<open>id\<close> and the
  region) and exactly one entry is of the solo queue, \<open>getPlayerRankedInfo\<close> returns the
  record made of the summoner's three fields, that entry's nine fields and the current
  instant; when no entry is of the solo queue it fails with
  \<open>No ranked solo queue data found\<close>.
\<close>

theorem getPlayerRankedInfo_assembles:
  assumes "truthy key"
    and "fetch_account net
           (baseUrl_americas @
            replace ''{tagLine}'' (encodeURIComponent (to_string (tagLine (parseRiotId riotId))))
              (replace ''{gameName}''
                 (encodeURIComponent (to_string (gameName (parseRiotId riotId))))
                 endpoint_account)) = Inr ra"
    and "ok ra" and "json ra = Inr accountData"
    and "fetch_summoner net
           (''https://'' @ region @ ''.api.riotgames.com'' @
            replace ''{puuid}'' (puuid accountData) endpoint_summoner) = Inr rs"
    and "ok rs" and "json rs = Inr summonerData"
    and "fetch_league net
           (''https://'' @ region @ ''.api.riotgames.com'' @
            replace ''{summonerId}'' (summoner_id summonerData) endpoint_league) = Inr rl"
    and "ok rl" and "json rl = Inr leagueEntries"
  shows "(filter (\<lambda>entry. queueType entry = ''RANKED_SOLO_5x5'') leagueEntries = [soloQueue] \<longrightarrow>
            getPlayerRankedInfo key net now riotId region =
              Inr \<lparr>tier = tier soloQueue, rank = rank soloQueue, wins = wins soloQueue,
                   losses = losses soloQueue, leaguePoints = leaguePoints soloQueue,
                   veteran = veteran soloQueue, inactive = inactive soloQueue,
                   freshBlood = freshBlood soloQueue, hotStreak = hotStreak soloQueue,
                   summonerId = summoner_id summonerData,
                   summonerName = summoner_name summonerData,
                   summonerLevel = summoner_level summonerData,
                   lastUpdated = now\<rparr>) \<and>
         (filter (\<lambda>entry. queueType entry = ''RANKED_SOLO_5x5'') leagueEntries = [] \<longrightarrow>
            getPlayerRankedInfo key net now riotId region =
              Inl (Error ''No ranked solo queue data found''))"
  using assms
  by (simp add: getPlayerRankedInfo_def getAccountByRiotId_def getSummonerByPuuid_def
      getLeagueEntriesBySummonerId_def await_makeRequest_def executeRequest_def find_filter
      Let_def)

text \<open>The three URLs of the lookup of \<open>Foo Bar#NA1\<close> on \<open>euw1\<close>.\<close>

lemma account_url:
  "baseUrl_americas @
     replace ''{tagLine}'' (encodeURIComponent (to_string (tagLine (parseRiotId ''Foo Bar#NA1''))))
       (replace ''{gameName}''
          (encodeURIComponent (to_string (gameName (parseRiotId ''Foo Bar#NA1''))))
          endpoint_account)
   = ''https://americas.api.riotgames.com/riot/account/v1/accounts/by-riot-id/Foo%20Bar/NA1''"
  by (simp add: baseUrl_americas_def endpoint_account_def replace_def encodeURIComponent_def
      to_string_def unreserved_def digit_char_def parseRiotId_def)

lemma summoner_url:
  "''https://'' @ ''euw1'' @ ''.api.riotgames.com'' @ replace ''{puuid}'' ''P-1'' endpoint_summoner
   = ''https://euw1.api.riotgames.com/lol/summoner/v4/summoners/by-puuid/P-1''"
  by (simp add: endpoint_summoner_def replace_def)

lemma league_url:
  "''https://'' @ ''euw1'' @ ''.api.riotgames.com'' @ replace ''{summonerId}'' ''S-1'' endpoint_league
   = ''https://euw1.api.riotgames.com/lol/league/v4/entries/by-summoner/S-1''"
  by (simp add: endpoint_league_def replace_def)

text \<open>
  The theorem on the network that answers by URL, with and without a solo-queue entry
  among the ranked entries.
\<close>

theorem getPlayerRankedInfo_assembles_witness:
  "getPlayerRankedInfo (Some ''k'') (routed [flex_entry, solo_entry]) 7 ''Foo Bar#NA1'' ''euw1''
     = Inr solo_info \<and>
   getPlayerRankedInfo (Some ''k'') (routed [flex_entry]) 7 ''Foo Bar#NA1'' ''euw1''
     = Inl (Error ''No ranked solo queue data found'')"
proof -
  let ?ra = "\<lparr>status = 200, errorData = Some None, json = Inr \<lparr>puuid = ''P-1''\<rparr>\<rparr>"
  let ?rs = "\<lparr>status = 200, errorData = Some None,
              json = Inr \<lparr>summoner_id = ''S-1'', summoner_name = ''Foo'', summoner_level = 42\<rparr>\<rparr>"
  have k: "truthy (Some ''k'')" by (simp add: truthy_def)
  have a: "fetch_account (routed es)
           (baseUrl_americas @
            replace ''{tagLine}'' (encodeURIComponent (to_string (tagLine (parseRiotId ''Foo Bar#NA1''))))
              (replace ''{gameName}''
                 (encodeURIComponent (to_string (gameName (parseRiotId ''Foo Bar#NA1''))))
                 endpoint_account)) = Inr ?ra" for es
    unfolding account_url by (simp add: routed_def)
  have s: "fetch_summoner (routed es)
           (''https://'' @ ''euw1'' @ ''.api.riotgames.com'' @
            replace ''{puuid}'' (puuid \<lparr>puuid = ''P-1''\<rparr>) endpoint_summoner) = Inr ?rs" for es
    using summoner_url by (simp add: routed_def)
  have l: "fetch_league (routed es)
           (''https://'' @ ''euw1'' @ ''.api.riotgames.com'' @
            replace ''{summonerId}''
              (summoner_id \<lparr>summoner_id = ''S-1'', summoner_name = ''Foo'', summoner_level = 42\<rparr>)
              endpoint_league)
         = Inr \<lparr>status = 200, errorData = Some None, json = Inr es\<rparr>" for es
    using league_url by (simp add: routed_def)
  have oa: "ok ?ra" and os: "ok ?rs" by (simp_all add: ok_def)
  have ol: "ok \<lparr>status = 200, errorData = Some None, json = Inr es\<rparr>" for es :: "league_entry list"
    by (simp add: ok_def)
  have one: "filter (\<lambda>entry. queueType entry = ''RANKED_SOLO_5x5'') [flex_entry, solo_entry]
      = [solo_entry]"
    by (simp add: flex_entry_def solo_entry_def)
  have none: "filter (\<lambda>entry. queueType entry = ''RANKED_SOLO_5x5'') [flex_entry] = []"
    by (simp add: flex_entry_def)
  note inst = getPlayerRankedInfo_assembles [where key = "Some ''k''" and riotId = "''Foo Bar#NA1''"
      and region = "''euw1''" and ra = ?ra and accountData = "\<lparr>puuid = ''P-1''\<rparr>" and rs = ?rs
      and summonerData = "\<lparr>summoner_id = ''S-1'', summoner_name = ''Foo'', summoner_level = 42\<rparr>"
      and soloQueue = solo_entry and now = 7]
  have x: "getPlayerRankedInfo (Some ''k'') (routed [flex_entry, solo_entry]) 7 ''Foo Bar#NA1'' ''euw1''
     = Inr solo_info"
    using inst [where net = "routed [flex_entry, solo_entry]"
        and rl = "\<lparr>status = 200, errorData = Some None, json = Inr [flex_entry, solo_entry]\<rparr>"
        and leagueEntries = "[flex_entry, solo_entry]", OF k a oa _ s os _ l ol] one
    by (simp add: solo_entry_def solo_info_def)
  have y: "getPlayerRankedInfo (Some ''k'') (routed [flex_entry]) 7 ''Foo Bar#NA1'' ''euw1''
     = Inl (Error ''No ranked solo queue data found'')"
    using inst [where net = "routed [flex_entry]"
        and rl = "\<lparr>status = 200, errorData = Some None, json = Inr [flex_entry]\<rparr>"
        and leagueEntries = "[flex_entry]", OF k a oa _ s os _ l ol] none
    by simp
  show ?thesis using x y by simp
qed

text \<open>
  C3, at a player whose summoner id is cached and whose live-game request is answered
  with 404: \<open>getPlayerRankedInfo\<close> on a 404 fails with the message of that status, and
  \<open>isPlayerInGame\<close> rethrows the error, since its message does not contain \<open>404\<close>.
\<close>

theorem isPlayerInGame_rethrows_404:
  "getPlayerRankedInfo (Some ''k'') net_404 7 ''Foo#NA1'' ''euw1''
     = Inl (Error ''Not Found - Player not found'') \<and>
   isPlayerInGame (Some ''k'') net_404 7 cached_player
     = (cached_player, Inl (Error ''Not Found - Player not found'')) \<and>
   isPlayerInGame (Some ''k'') (net_entries [solo_entry]) 7 cached_player
     = (cached_player, Inl (Error ''Not Found - Player not found''))"
  by (simp add: isPlayerInGame_def getPlayerRankedInfo_def getAccountByRiotId_def
      getCurrentGameBySummonerId_def await_makeRequest_def executeRequest_def truthy_def ok_def
      handleApiError_def inGame_catch_def to_string_def net_404_def net_entries_def
      not_found_def cached_player_def)

section \<open>The worker\<close>

lemma loop_body_effect:
  assumes "requestQueue w = p # rest"
  shows "\<exists>t. clock w \<le> t \<and> t + 50 \<le> clock (loop_body e w) \<and>
             dispatched (loop_body e w) = dispatched w @ [(t, p)] \<and>
             requestQueue (loop_body e w) = rest \<and>
             settled (loop_body e w) =
               settled w @ [(caller p, executeRequest (apiKey w) (fetched e))] \<and>
             isProcessing (loop_body e w) = isProcessing w \<and>
             apiKey (loop_body e w) = apiKey w"
  using assms
  by (cases "executeRequest (apiKey w) (fetched e)")
     (simp_all add: loop_body_def Let_def sleep_def)



lemma run_append: "run (es @ fs) w = run fs (run es w)"
  by (induction es arbitrary: w) simp_all

lemma submissions_append: "submissions (es @ fs) = submissions es @ submissions fs"
  by (induction es rule: submissions.induct) simp_all

subsection \<open>Order\<close>

lemma step_order:
  "map snd (dispatched (step e w)) @ requestQueue (step e w) =
     map snd (dispatched w) @ requestQueue w @ submissions [e]"
proof (cases e)
  case (Submit u c)
  then show ?thesis by (simp add: makeRequest_def processQueue_def)
next
  case (Elapse d)
  then show ?thesis by simp
next
  case (Turn v)
  show ?thesis
  proof (cases "isProcessing w \<and> requestQueue w \<noteq> []")
    case True
    then obtain p rest where q: "requestQueue w = p # rest" by (cases "requestQueue w") auto
    from loop_body_effect [OF q, of v] show ?thesis using True Turn q by (auto simp: turn_def)
  next
    case False
    then show ?thesis using Turn by (auto simp: turn_def)
  qed
qed

lemma run_order:
  "map snd (dispatched (run es w)) @ requestQueue (run es w) =
     map snd (dispatched w) @ requestQueue w @ submissions es"
proof (induction es arbitrary: w)
  case Nil
  then show ?case by simp
next
  case (Cons e es)
  have "submissions (e # es) = submissions [e] @ submissions es"
    using submissions_append [of "[e]" es] by simp
  then show ?case using Cons [of "step e w"] step_order [of e w] by simp
qed

subsection \<open>Draining\<close>

lemma turns_drain:
  assumes "isProcessing w" and "length envs = length (requestQueue w)"
  shows "map snd (dispatched (run (map Turn envs) w)) = map snd (dispatched w) @ requestQueue w \<and>
         settled (run (map Turn envs) w) =
           settled w @ map2 (\<lambda>p e. (caller p, executeRequest (apiKey w) (fetched e)))
                         (requestQueue w) envs \<and>
         requestQueue (run (map Turn envs) w) = [] \<and>
         isProcessing (run (map Turn envs) w)"
  using assms
proof (induction envs arbitrary: w)
  case Nil
  then show ?case by simp
next
  case (Cons v envs)
  then obtain p rest where q: "requestQueue w = p # rest" by (cases "requestQueue w") auto
  from loop_body_effect [OF q, of v] obtain t where
      d: "dispatched (loop_body v w) = dispatched w @ [(t, p)]"
      and r: "requestQueue (loop_body v w) = rest"
      and s: "settled (loop_body v w) = settled w @ [(caller p, executeRequest (apiKey w) (fetched v))]"
      and i: "isProcessing (loop_body v w) = isProcessing w"
      and k: "apiKey (loop_body v w) = apiKey w"
    by blast
  have st: "step (Turn v) w = loop_body v w" using Cons.prems q by (simp add: turn_def)
  have "isProcessing (loop_body v w)" "length envs = length (requestQueue (loop_body v w))"
    using Cons.prems i r q by simp_all
  from Cons.IH [OF this] show ?case using st d r s k q by simp
qed

subsection \<open>Pace\<close>












lemma start_fields:
  "dispatched (start key stored now) = []"
  "requestQueue (start key stored now) = []"
  "settled (start key stored now) = []"
  "requestsThisSecond (start key stored now) = 0"
  "requestsThisMinute (start key stored now) = 0"
  "clock (start key stored now) = now"
  "minuteResetTime (start key stored now) = now + 60000"
  "lastRequestTime (start key stored now) = 0"
  "\<not> isProcessing (start key stored now)"
  "apiKey (start key stored now) = (if truthy key then key else stored)"
  by (simp_all add: start_def new_RiotApiClient_def RiotApiClient.extend_def world.fields_def
      RiotApiClient.defs world.defs)

subsection \<open>The burst across the minute boundary\<close>









lemma three_queued_fields:
  "isProcessing three_queued \<and> apiKey three_queued = Some ''k'' \<and>
   dispatched three_queued = [] \<and> settled three_queued = [] \<and>
   requestQueue three_queued =
     [\<lparr>url = ''a'', caller = 1\<rparr>, \<lparr>url = ''b'', caller = 2\<rparr>, \<lparr>url = ''c'', caller = 3\<rparr>]"
  by (simp add: three_queued_def makeRequest_def processQueue_def truthy_def start_fields)

subsection \<open>Liveness of the worker and the pace of a run\<close>

lemma alive_step: "(requestQueue w \<noteq> [] \<longrightarrow> isProcessing w) \<Longrightarrow>
   requestQueue (step e w) \<noteq> [] \<longrightarrow> isProcessing (step e w)"
proof (cases e)
  case (Submit u c)
  then show ?thesis by (simp add: makeRequest_def processQueue_def)
next
  case (Elapse d)
  assume "requestQueue w \<noteq> [] \<longrightarrow> isProcessing w"
  then show ?thesis using Elapse by simp
next
  case (Turn v)
  assume a: "requestQueue w \<noteq> [] \<longrightarrow> isProcessing w"
  show ?thesis
  proof (cases "requestQueue w")
    case Nil
    then show ?thesis using Turn by (simp add: turn_def)
  next
    case (Cons p rest)
    from loop_body_effect [OF Cons, of v] show ?thesis using a Cons Turn by (auto simp: turn_def)
  qed
qed

lemma alive_run: "(requestQueue w \<noteq> [] \<longrightarrow> isProcessing w) \<Longrightarrow>
   requestQueue (run es w) \<noteq> [] \<longrightarrow> isProcessing (run es w)"
proof (induction es arbitrary: w)
  case Nil
  then show ?case by simp
next
  case (Cons e es)
  from Cons.IH [OF alive_step [OF Cons.prems, of e]] show ?case by simp
qed



section \<open>The scheduler's guarantees\<close>




text \<open>
  C2. In every run, the requests dispatched so far, in the order of their dispatch,
  followed by the requests still queued, are the requests submitted, in the order of
  their submission. So when the queue is empty the two orders are equal, and as many
  further turns of the worker as there are requests queued dispatch all of them: the
  order of dispatch is then the order of submission.
\<close>

theorem dispatch_order_is_submission_order:
  "map snd (dispatched (run es (start key stored now))) @
     requestQueue (run es (start key stored now)) = submissions es \<and>
   (requestQueue (run es (start key stored now)) = [] \<longrightarrow>
      map snd (dispatched (run es (start key stored now))) = submissions es) \<and>
   (length envs = length (requestQueue (run es (start key stored now))) \<longrightarrow>
      map snd (dispatched (run (es @ map Turn envs) (start key stored now))) = submissions es)"
proof -
  let ?w = "run es (start key stored now)"
  have o: "map snd (dispatched ?w) @ requestQueue ?w = submissions es"
    using run_order [of es "start key stored now"] by (simp add: start_fields)
  have al: "requestQueue ?w \<noteq> [] \<longrightarrow> isProcessing ?w"
    by (rule alive_run) (simp add: start_fields)
  have "map snd (dispatched (run (es @ map Turn envs) (start key stored now))) = submissions es"
    if l: "length envs = length (requestQueue ?w)"
  proof (cases "requestQueue ?w")
    case Nil
    then show ?thesis using l o by (simp add: run_append)
  next
    case (Cons p rest)
    then have "isProcessing ?w" using al by simp
    from turns_drain [OF this l] show ?thesis using o by (simp add: run_append)
  qed
  then show ?thesis using o by auto
qed

text \<open>
  The theorem on three requests submitted at once: three turns dispatch them in the
  order of submission, whether the first or the last of them fails, and the queue is
  then empty.
\<close>

theorem dispatch_order_is_submission_order_witness:
  "map snd (dispatched (run ([Submit ''a'' 1, Submit ''b'' 2, Submit ''c'' 3] @
                             map Turn [fail_env, ok_env, ok_env]) (start (Some ''k'') None built_at)))
     = [\<lparr>url = ''a'', caller = 1\<rparr>, \<lparr>url = ''b'', caller = 2\<rparr>, \<lparr>url = ''c'', caller = 3\<rparr>] \<and>
   map snd (dispatched (run ([Submit ''a'' 1, Submit ''b'' 2, Submit ''c'' 3] @
                             map Turn [ok_env, ok_env, fail_env]) (start (Some ''k'') None built_at)))
     = [\<lparr>url = ''a'', caller = 1\<rparr>, \<lparr>url = ''b'', caller = 2\<rparr>, \<lparr>url = ''c'', caller = 3\<rparr>]"
proof -
  let ?subs = "[Submit ''a'' 1, Submit ''b'' 2, Submit ''c'' 3] :: unit event list"
  let ?es = "?subs @ map Turn [fail_env, ok_env, ok_env]"
  have r: "run ?es (start (Some ''k'') None built_at)
      = run (map Turn [fail_env, ok_env, ok_env]) three_queued"
    unfolding three_queued_def by (rule run_append)
  have p: "isProcessing three_queued" using three_queued_fields by simp
  have l: "length [fail_env, ok_env, ok_env] = length (requestQueue three_queued)"
    using three_queued_fields by simp
  have "requestQueue (run ?es (start (Some ''k'') None built_at)) = []"
    unfolding r using turns_drain [OF p l] by simp
  then have first: "map snd (dispatched (run ?es (start (Some ''k'') None built_at)))
      = [\<lparr>url = ''a'', caller = 1\<rparr>, \<lparr>url = ''b'', caller = 2\<rparr>, \<lparr>url = ''c'', caller = 3\<rparr>]"
    using dispatch_order_is_submission_order [of ?es "Some ''k''" None built_at]
    by simp
  have "length [ok_env, ok_env, fail_env]
      = length (requestQueue (run ?subs (start (Some ''k'') None built_at)))"
    using three_queued_fields by (simp add: three_queued_def)
  then have second: "map snd (dispatched (run (?subs @ map Turn [ok_env, ok_env, fail_env])
        (start (Some ''k'') None built_at)))
      = [\<lparr>url = ''a'', caller = 1\<rparr>, \<lparr>url = ''b'', caller = 2\<rparr>, \<lparr>url = ''c'', caller = 3\<rparr>]"
    using dispatch_order_is_submission_order [of ?subs "Some ''k''" None built_at
        "[ok_env, ok_env, fail_env]"]
    by simp
  show ?thesis using first second by simp
qed

text \<open>
  C7. A live worker that takes as many turns as there are queued requests dispatches
  every one of them once, in order, whatever the outcomes: each caller is settled once,
  with the outcome of \<open>executeRequest\<close> on its own request (\<open>Inl\<close> is a rejection), the
  queue ends empty and the worker is still alive.
\<close>

theorem failure_does_not_halt_queue:
  assumes "isProcessing w" and "length envs = length (requestQueue w)"
  shows "map snd (dispatched (run (map Turn envs) w)) = map snd (dispatched w) @ requestQueue w \<and>
         settled (run (map Turn envs) w) =
           settled w @ map2 (\<lambda>p e. (caller p, executeRequest (apiKey w) (fetched e)))
                         (requestQueue w) envs \<and>
         requestQueue (run (map Turn envs) w) = [] \<and>
         isProcessing (run (map Turn envs) w)"
  using assms by (rule turns_drain)

text \<open>
  The theorem on three queued requests: the first is answered with status 500, and the
  two behind it are dispatched and resolved.
\<close>

theorem failure_does_not_halt_queue_witness:
  "map snd (dispatched (run (map Turn [fail_env, ok_env, ok_env]) three_queued))
     = [\<lparr>url = ''a'', caller = 1\<rparr>, \<lparr>url = ''b'', caller = 2\<rparr>, \<lparr>url = ''c'', caller = 3\<rparr>] \<and>
   settled (run (map Turn [fail_env, ok_env, ok_env]) three_queued)
     = [(1, Inl (Error ''Internal Server Error - Riot API issue'')), (2, Inr ()), (3, Inr ())]"
proof -
  have p: "isProcessing three_queued" using three_queued_fields by simp
  have l: "length [fail_env, ok_env, ok_env] = length (requestQueue three_queued)"
    using three_queued_fields by simp
  show ?thesis
    using failure_does_not_halt_queue [OF p l] three_queued_fields
    by (simp add: executeRequest_def truthy_def ok_def handleApiError_def fail_env_def ok_env_def)
qed

section \<open>The synthetic client\<close>

lemma randomInt_range:
  assumes "0 \<le> r" and "r < 1" and "lo \<le> hi"
  shows "lo \<le> randomInt r lo hi \<and> randomInt r lo hi \<le> hi"
proof -
  define n where "n = hi - lo + 1"
  have n: "0 < n" using assms(3) by (simp add: n_def)
  have "0 \<le> r * of_int n" using assms(1) n by simp
  then have lo: "0 \<le> \<lfloor>r * of_int n\<rfloor>" by simp
  have "r * of_int n < of_int n" using assms(2) n by simp
  then have "\<lfloor>r * of_int n\<rfloor> < n" by (simp only: floor_less_iff)
  then show ?thesis using lo unfolding randomInt_def n_def [symmetric] by (simp add: n_def)
qed

lemma randomChoice_mem:
  assumes "0 \<le> r" and "r < 1" and "xs \<noteq> []"
  shows "randomChoice r xs \<in> Some ` set xs"
proof -
  let ?n = "length xs"
  have n: "0 < ?n" using assms(3) by simp
  have "0 \<le> r * of_nat ?n" using assms(1) by simp
  then have lo: "0 \<le> \<lfloor>r * of_nat ?n\<rfloor>" by simp
  have "r * of_nat ?n < of_nat ?n" using assms(2) n by simp
  then have "r * of_nat ?n < of_int (int ?n)" by simp
  then have hi: "\<lfloor>r * of_nat ?n\<rfloor> < int ?n" by (simp only: floor_less_iff)
  then have "nat \<lfloor>r * of_nat ?n\<rfloor> < ?n" using lo by linarith
  then have mem: "xs ! nat \<lfloor>r * of_nat ?n\<rfloor> \<in> set xs" by simp
  have eq: "randomChoice r xs = Some (xs ! nat \<lfloor>r * of_nat ?n\<rfloor>)"
    using lo hi by (simp add: randomChoice_def Let_def)
  show ?thesis unfolding eq using mem by (rule imageI)
qed

lemma generate_in_range:
  assumes "\<forall>i. 0 \<le> rnd i \<and> rnd i < 1"
  shows "in_range (generate rnd i)"
  using randomChoice_mem [of "rnd i" tiers] randomChoice_mem [of "rnd (i + 1)" ranks]
    randomInt_range [of "rnd (i + 2)" 0 100] assms
  by (simp add: in_range_def generate_def tiers_def ranks_def)

lemma progress_effect:
  assumes "\<forall>i. 0 \<le> rnd i \<and> rnd i < 1"
  shows "tier (fst (progress rnd j d)) = tier d \<and> rank (fst (progress rnd j d)) = rank d \<and>
         wins d \<le> wins (fst (progress rnd j d)) \<and> wins (fst (progress rnd j d)) \<le> wins d + 2 \<and>
         losses d \<le> losses (fst (progress rnd j d)) \<and>
         losses (fst (progress rnd j d)) \<le> losses d + 1 \<and>
         (in_range d \<longrightarrow> in_range (fst (progress rnd j d)))"
  using randomInt_range [of "rnd (j + 1)" 0 2] randomInt_range [of "rnd (j + 2)" 0 1] assms
  by (simp add: progress_def Let_def in_range_def)

lemma initializeMockData_from:
  "initializeMockData i ds m k = Some d \<Longrightarrow> d \<in> set ds \<or> m k = Some d"
  by (induction i ds m rule: initializeMockData.induct) (auto split: if_splits)

lemma new_in_range: "all_in_range new_MockRiotApiClient"
proof -
  have "in_range d" if "d \<in> set mockPlayers" for d
    using that by (auto simp: mockPlayers_def in_range_def tiers_def ranks_def)
  then show ?thesis
    using initializeMockData_from [of 0 mockPlayers Map.empty]
    by (auto simp: all_in_range_def new_MockRiotApiClient_def)
qed

text \<open>One call: the record returned and the record left in the map.\<close>

lemma mock_call:
  fixes rnd lc now c riotId region
  assumes rnd: "\<forall>i. 0 \<le> rnd i \<and> rnd i < 1"
  defines "r \<equiv> fst (mock_getPlayerRankedInfo rnd lc now c riotId region)"
    and "c' \<equiv> snd (mock_getPlayerRankedInfo rnd lc now c riotId region)"
  shows "\<exists>d'. mockData c' (stored_under lc riotId) = Some d' \<and>
              tier r = tier d' \<and> rank r = rank d' \<and> leaguePoints r = lp d' \<and>
              wins r = wins d' \<and> losses r = losses d' \<and>
              (all_in_range c \<longrightarrow> in_range d') \<and>
              (\<forall>d. mockData c (stored_under lc riotId) = Some d \<longrightarrow>
                 wins d \<le> wins d' \<and> wins d' \<le> wins d + 2 \<and>
                 losses d \<le> losses d' \<and> losses d' \<le> losses d + 1)"
    and "\<forall>k. k \<noteq> stored_under lc riotId \<longrightarrow> mockData c' k = mockData c k"
proof -
  let ?key = "stored_under lc riotId"
  define d0 where "d0 = (case mockData c ?key of Some d \<Rightarrow> d | None \<Rightarrow> generate rnd (drawn c))"
  define j where "j = (case mockData c ?key of Some d \<Rightarrow> drawn c | None \<Rightarrow> drawn c + 5)"
  define d' where "d' = fst (progress rnd j d0)"
  have pair: "(case mockData c ?key of Some d \<Rightarrow> (d, drawn c)
               | None \<Rightarrow> (generate rnd (drawn c), drawn c + 5)) = (d0, j)"
    by (simp add: d0_def j_def split: option.splits)
  have store: "mockData c' = (mockData c)(?key \<mapsto> d')"
    unfolding c'_def mock_getPlayerRankedInfo_def Let_def stored_under_def [symmetric]
    by (simp add: pair split_beta d'_def)
  have rec: "tier r = tier d' \<and> rank r = rank d' \<and> leaguePoints r = lp d' \<and>
             wins r = wins d' \<and> losses r = losses d'"
    unfolding r_def mock_getPlayerRankedInfo_def Let_def stored_under_def [symmetric]
    by (simp add: pair split_beta d'_def)
  have pe: "wins d0 \<le> wins d' \<and> wins d' \<le> wins d0 + 2 \<and>
            losses d0 \<le> losses d' \<and> losses d' \<le> losses d0 + 1 \<and>
            (in_range d0 \<longrightarrow> in_range d')"
    unfolding d'_def using progress_effect [where rnd = rnd and j = j and d = d0] rnd by simp
  have r0: "all_in_range c \<longrightarrow> in_range d0"
    using generate_in_range [where rnd = rnd and i = "drawn c"] rnd
    by (auto simp: d0_def all_in_range_def split: option.splits)
  have old: "\<forall>d. mockData c ?key = Some d \<longrightarrow> d0 = d" by (simp add: d0_def)
  show "\<exists>d'. mockData c' ?key = Some d' \<and>
              tier r = tier d' \<and> rank r = rank d' \<and> leaguePoints r = lp d' \<and>
              wins r = wins d' \<and> losses r = losses d' \<and>
              (all_in_range c \<longrightarrow> in_range d') \<and>
              (\<forall>d. mockData c ?key = Some d \<longrightarrow>
                 wins d \<le> wins d' \<and> wins d' \<le> wins d + 2 \<and>
                 losses d \<le> losses d' \<and> losses d' \<le> losses d + 1)"
    using store rec pe r0 old by (intro exI [of _ d']) auto
  show "\<forall>k. k \<noteq> ?key \<longrightarrow> mockData c' k = mockData c k"
    using store by simp
qed

lemma lookups_Cons:
  "lookups rnd lc c ((riotId, region, now) # rest) =
     (fst (mock_getPlayerRankedInfo rnd lc now c riotId region) #
        fst (lookups rnd lc (snd (mock_getPlayerRankedInfo rnd lc now c riotId region)) rest),
      snd (lookups rnd lc (snd (mock_getPlayerRankedInfo rnd lc now c riotId region)) rest))"
  by (simp add: split_beta)

lemma length_lookups: "length (fst (lookups rnd lc c calls)) = length calls"
proof (induction calls arbitrary: c)
  case Nil
  then show ?case by simp
next
  case (Cons call calls)
  obtain riotId region now where call: "call = (riotId, region, now)" by (cases call)
  show ?case unfolding call lookups_Cons using Cons.IH by simp
qed

lemma mock_call_keeps_range:
  assumes rnd: "\<forall>i. 0 \<le> rnd i \<and> rnd i < 1" and c: "all_in_range c"
  shows "all_in_range (snd (mock_getPlayerRankedInfo rnd lc now c riotId region))"
proof -
  let ?c' = "snd (mock_getPlayerRankedInfo rnd lc now c riotId region)"
  note m = mock_call [where rnd = rnd and lc = lc and now = now and c = c and riotId = riotId
      and region = region]
  from m(1) rnd c obtain d' where d': "mockData ?c' (stored_under lc riotId) = Some d'"
      "in_range d'" by blast
  have "in_range d" if "mockData ?c' k = Some d" for k d
  proof (cases "k = stored_under lc riotId")
    case True
    then show ?thesis using that d' by simp
  next
    case False
    then have "mockData c k = Some d" using that m(2) rnd by simp
    then show ?thesis using c by (auto simp: all_in_range_def)
  qed
  then show ?thesis by (auto simp: all_in_range_def)
qed

lemma lookups_in_range:
  assumes rnd: "\<forall>i. 0 \<le> rnd i \<and> rnd i < 1"
  shows "all_in_range c \<Longrightarrow> r \<in> set (fst (lookups rnd lc c calls)) \<Longrightarrow>
         tier r \<in> Some ` set tiers \<and> rank r \<in> Some ` set ranks \<and>
         0 \<le> leaguePoints r \<and> leaguePoints r \<le> 100"
proof (induction calls arbitrary: c)
  case Nil
  then show ?case by simp
next
  case (Cons call calls)
  obtain riotId region now where call: "call = (riotId, region, now)" by (cases call)
  let ?r = "fst (mock_getPlayerRankedInfo rnd lc now c riotId region)"
  let ?c' = "snd (mock_getPlayerRankedInfo rnd lc now c riotId region)"
  note m = mock_call [where rnd = rnd and lc = lc and now = now and c = c and riotId = riotId
      and region = region]
  from Cons.prems(2) have "r = ?r \<or> r \<in> set (fst (lookups rnd lc ?c' calls))"
    unfolding call lookups_Cons by simp
  then show ?case
  proof
    assume "r = ?r"
    then show ?thesis using m(1) rnd Cons.prems(1) by (auto simp: in_range_def)
  next
    assume "r \<in> set (fst (lookups rnd lc ?c' calls))"
    then show ?thesis
      using Cons.IH [OF mock_call_keeps_range [OF rnd Cons.prems(1)]] by blast
  qed
qed

text \<open>
  After a record is stored under a key, every later lookup of that key returns at least
  its wins and losses, and at most two wins and one loss more per call made since.
\<close>

lemma lookups_after:
  assumes rnd: "\<forall>i. 0 \<le> rnd i \<and> rnd i < 1"
  shows "mockData c k = Some d \<Longrightarrow> j < length calls \<Longrightarrow>
         stored_under lc (fst (calls ! j)) = k \<Longrightarrow>
         wins d \<le> wins (fst (lookups rnd lc c calls) ! j) \<and>
         wins (fst (lookups rnd lc c calls) ! j) \<le> wins d + 2 * (int j + 1) \<and>
         losses d \<le> losses (fst (lookups rnd lc c calls) ! j) \<and>
         losses (fst (lookups rnd lc c calls) ! j) \<le> losses d + (int j + 1)"
proof (induction calls arbitrary: c d j)
  case Nil
  then show ?case by simp
next
  case (Cons call calls)
  obtain riotId region now where call: "call = (riotId, region, now)" by (cases call)
  let ?r = "fst (mock_getPlayerRankedInfo rnd lc now c riotId region)"
  let ?c' = "snd (mock_getPlayerRankedInfo rnd lc now c riotId region)"
  note m = mock_call [where rnd = rnd and lc = lc and now = now and c = c and riotId = riotId
      and region = region]
  from m(1) rnd obtain d' where d': "mockData ?c' (stored_under lc riotId) = Some d'"
      "wins ?r = wins d'" "losses ?r = losses d'"
      and old: "\<forall>d. mockData c (stored_under lc riotId) = Some d \<longrightarrow>
                 wins d \<le> wins d' \<and> wins d' \<le> wins d + 2 \<and>
                 losses d \<le> losses d' \<and> losses d' \<le> losses d + 1"
    by blast
  show ?case
  proof (cases j)
    case 0
    then have "stored_under lc riotId = k" using Cons.prems(3) call by simp
    then show ?thesis using 0 old Cons.prems(1) d' unfolding call lookups_Cons by auto
  next
    case (Suc j')
    have j': "j' < length calls" "stored_under lc (fst (calls ! j')) = k"
      using Cons.prems(2,3) Suc by simp_all
    obtain e where e: "mockData ?c' k = Some e" "wins d \<le> wins e" "wins e \<le> wins d + 2"
        "losses d \<le> losses e" "losses e \<le> losses d + 1"
    proof (cases "k = stored_under lc riotId")
      case True
      then show ?thesis using that [of d'] d'(1) old Cons.prems(1) by auto
    next
      case False
      then have "mockData ?c' k = Some d" using m(2) rnd Cons.prems(1) by simp
      then show ?thesis using that [of d] by simp
    qed
    from Cons.IH [OF e(1) j'] show ?thesis
      using e(2-5) Suc unfolding call lookups_Cons by simp
  qed
qed

lemma lookups_monotone:
  assumes rnd: "\<forall>i. 0 \<le> rnd i \<and> rnd i < 1"
  shows "i < j \<Longrightarrow> j < length calls \<Longrightarrow>
         stored_under lc (fst (calls ! i)) = stored_under lc (fst (calls ! j)) \<Longrightarrow>
         wins (fst (lookups rnd lc c calls) ! i) \<le> wins (fst (lookups rnd lc c calls) ! j) \<and>
         wins (fst (lookups rnd lc c calls) ! j)
           \<le> wins (fst (lookups rnd lc c calls) ! i) + 2 * (int j - int i) \<and>
         losses (fst (lookups rnd lc c calls) ! i) \<le> losses (fst (lookups rnd lc c calls) ! j) \<and>
         losses (fst (lookups rnd lc c calls) ! j)
           \<le> losses (fst (lookups rnd lc c calls) ! i) + (int j - int i)"
proof (induction calls arbitrary: c i j)
  case Nil
  then show ?case by simp
next
  case (Cons call calls)
  obtain riotId region now where call: "call = (riotId, region, now)" by (cases call)
  let ?r = "fst (mock_getPlayerRankedInfo rnd lc now c riotId region)"
  let ?c' = "snd (mock_getPlayerRankedInfo rnd lc now c riotId region)"
  note m = mock_call [where rnd = rnd and lc = lc and now = now and c = c and riotId = riotId
      and region = region]
  from Cons.prems(1) obtain j' where j: "j = Suc j'" by (cases j) simp_all
  have j': "j' < length calls" using Cons.prems(2) j by simp
  show ?case
  proof (cases i)
    case 0
    from m(1) rnd obtain d' where d': "mockData ?c' (stored_under lc riotId) = Some d'"
        "wins ?r = wins d'" "losses ?r = losses d'"
      by blast
    have "stored_under lc (fst (calls ! j')) = stored_under lc riotId"
      using Cons.prems(3) 0 j call by simp
    from lookups_after [OF rnd d'(1) j' this] show ?thesis
      using 0 j d'(2,3) unfolding call lookups_Cons by simp
  next
    case (Suc i')
    have "i' < j'" "stored_under lc (fst (calls ! i')) = stored_under lc (fst (calls ! j'))"
      using Cons.prems(1,3) Suc j by simp_all
    from Cons.IH [OF this(1) j' this(2), of ?c'] show ?thesis
      using Suc j unfolding call lookups_Cons by simp
  qed
qed

text \<open>
  C9. Let every call of \<open>Math.random()\<close> yield a number from 0 up to, not including, 1.
  In every sequence of lookups on a new synthetic client, every record returned has its
  tier and its division in the two enumerations and its points between 0 and 100; and of
  two lookups whose names are stored under the same key, the later one returns at least
  the wins and the losses of the earlier one, and at most two wins and one loss more for
  each lookup made since.
\<close>

theorem synthetic_records_in_range_and_monotone:
  assumes "\<forall>i. 0 \<le> rnd i \<and> rnd i < 1"
  shows "(\<forall>r \<in> set (fst (lookups rnd lc new_MockRiotApiClient calls)).
            tier r \<in> Some ` set tiers \<and> rank r \<in> Some ` set ranks \<and>
            0 \<le> leaguePoints r \<and> leaguePoints r \<le> 100) \<and>
         (\<forall>i j. i < j \<and> j < length calls \<and>
                stored_under lc (fst (calls ! i)) = stored_under lc (fst (calls ! j)) \<longrightarrow>
            wins (fst (lookups rnd lc new_MockRiotApiClient calls) ! i)
              \<le> wins (fst (lookups rnd lc new_MockRiotApiClient calls) ! j) \<and>
            wins (fst (lookups rnd lc new_MockRiotApiClient calls) ! j)
              \<le> wins (fst (lookups rnd lc new_MockRiotApiClient calls) ! i) + 2 * (int j - int i) \<and>
            losses (fst (lookups rnd lc new_MockRiotApiClient calls) ! i)
              \<le> losses (fst (lookups rnd lc new_MockRiotApiClient calls) ! j) \<and>
            losses (fst (lookups rnd lc new_MockRiotApiClient calls) ! j)
              \<le> losses (fst (lookups rnd lc new_MockRiotApiClient calls) ! i) + (int j - int i))"
  using lookups_in_range [OF assms new_in_range, of _ lc calls]
    lookups_monotone [OF assms, of _ _ calls lc new_MockRiotApiClient]
  by blast

lemma three_keys:
  "stored_under lower_ascii (fst (three_lookups ! 0)) = stored_under lower_ascii (fst (three_lookups ! 2))"
  by (simp add: three_lookups_def stored_under_def parseRiotId_def to_string_def lower_ascii_def)

text \<open>
  The theorem on three lookups, the first and the third of the same player under two
  spellings.
\<close>

theorem synthetic_records_in_range_and_monotone_witness:
  "wins (fst (lookups alternating lower_ascii new_MockRiotApiClient three_lookups) ! 0)
     \<le> wins (fst (lookups alternating lower_ascii new_MockRiotApiClient three_lookups) ! 2) \<and>
   losses (fst (lookups alternating lower_ascii new_MockRiotApiClient three_lookups) ! 2)
     \<le> losses (fst (lookups alternating lower_ascii new_MockRiotApiClient three_lookups) ! 0) + 2 \<and>
   leaguePoints (fst (lookups alternating lower_ascii new_MockRiotApiClient three_lookups) ! 2) \<le> 100 \<and>
   tier (fst (lookups alternating lower_ascii new_MockRiotApiClient three_lookups) ! 2)
     \<in> Some ` set tiers"
proof -
  let ?rs = "fst (lookups alternating lower_ascii new_MockRiotApiClient three_lookups)"
  have rnd: "\<forall>i. 0 \<le> alternating i \<and> alternating i < 1" by (simp add: alternating_def)
  have len: "length three_lookups = 3" by (simp add: three_lookups_def)
  then have "length ?rs = 3" by (simp add: length_lookups)
  then have mem: "?rs ! 2 \<in> set ?rs" by simp
  note inst = synthetic_records_in_range_and_monotone [OF rnd, of lower_ascii three_lookups]
  have a: "wins (?rs ! 0) \<le> wins (?rs ! 2) \<and> losses (?rs ! 2) \<le> losses (?rs ! 0) + 2"
    using inst [THEN conjunct2, rule_format, of 0 2] three_keys len by simp
  have b: "leaguePoints (?rs ! 2) \<le> 100 \<and> tier (?rs ! 2) \<in> Some ` set tiers"
    using inst mem by blast
  show ?thesis using a b by simp
qed

end
